theory Spec2Isabelle
  imports Main
begin

section \<open>Arrays\<close>

text \<open>
  A two-dimensional \<^verbatim>\<open>np.ndarray\<close> is the list of its rows. \<open>shape0\<close> and \<open>shape1\<close>
  are \<^verbatim>\<open>X.shape[0]\<close> and \<^verbatim>\<open>X.shape[1]\<close>; \<open>is_2d\<close> says that the rows have one
  common length, which every numpy array has. An array without rows is modelled with
  zero columns. The element type is left open: it stands for the finite numbers an
  array holds.
\<close>

type_synonym 'a ndarray = "'a list list"

definition shape0 :: "'a ndarray \<Rightarrow> nat" where
  "shape0 X = length X"

definition shape1 :: "'a ndarray \<Rightarrow> nat" where
  "shape1 X = (case X of [] \<Rightarrow> 0 | r # _ \<Rightarrow> length r)"

definition is_2d :: "'a ndarray \<Rightarrow> bool" where
  "is_2d X = list_all (\<lambda>r. length r = shape1 X) X"

section \<open>Exceptions\<close>

text \<open>
  Every exception of the program is a \<^verbatim>\<open>ValueError\<close>; the constructors tell them
  apart by where they are raised.
  \<^item> \<open>ShapeMismatch\<close>: raised by the sanity check of \<^verbatim>\<open>fit_transform\<close>
    ("All input datasets must have the same number of samples (rows).").
  \<^item> \<open>InvalidShape\<close>: raised by a reducer whose \<^verbatim>\<open>n_components\<close> exceeds the
    row count or the column count of the matrix it is given.
  \<^item> \<open>ConcatenateError\<close>: raised by \<^verbatim>\<open>np.hstack\<close> when the row counts of the
    arrays differ, or when no array is given.
  \<^item> \<open>NegativeDimensions\<close>: raised by the random generator asked for an array with a
    negative dimension.
  \<^item> \<open>InvalidSeed\<close>: raised by \<^verbatim>\<open>np.random.default_rng\<close> given a seed it does not
    accept, such as a negative integer.
\<close>

datatype error =
  ShapeMismatch | InvalidShape | ConcatenateError | NegativeDimensions | InvalidSeed

section \<open>The reducer\<close>

text \<open>
  \<^verbatim>\<open>sklearn.decomposition.PCA\<close> is a library class. An estimator object holds the two
  constructor parameters the program passes and, once it is fit, its fitted attributes
  (the basis and the centring statistics), of an open type \<open>'f\<close>.
\<close>

record 'f PCA =
  pca_n_components :: int
  pca_random_state :: "int option"
  fitted :: "'f option"

definition PCA_new :: "int \<Rightarrow> int option \<Rightarrow> 'f PCA" where
  "PCA_new k rs = \<lparr>pca_n_components = k, pca_random_state = rs, fitted = None\<rparr>"

text \<open>
  A call \<^verbatim>\<open>pca.fit_transform(X)\<close> is a parameter of the model. It is given the
  estimator, the array and the state \<open>'g\<close> of numpy's process-wide random generator
  (which an unseeded estimator draws from), and it yields what the call returns or
  raises, the estimator after the call, the contents of \<^verbatim>\<open>X\<close> after the call, and
  the generator state after the call.
\<close>

record ('a, 'f, 'g) pca_call =
  returned :: "error + 'a ndarray"
  estimator :: "'f PCA"
  argument :: "'a ndarray"
  global_rng :: 'g

type_synonym ('a, 'f, 'g) reducer = "'f PCA \<Rightarrow> 'a ndarray \<Rightarrow> 'g \<Rightarrow> ('a, 'f, 'g) pca_call"

section \<open>The integrator\<close>

record 'f MultiOmicsIntegrator =
  n_components :: int
  random_state :: "int option"
  pca_metabolomics :: "'f PCA"
  pca_bulk_rna :: "'f PCA"
  pca_spatial :: "'f PCA"
  pca_sc_rna :: "'f PCA"
  pca_joint :: "'f PCA"

text \<open>The dataclass constructor followed by \<^verbatim>\<open>__post_init__\<close>.\<close>

definition post_init :: "int \<Rightarrow> int option \<Rightarrow> 'f MultiOmicsIntegrator" where
  "post_init k rs =
     \<lparr>n_components = k, random_state = rs,
      pca_metabolomics = PCA_new k rs,
      pca_bulk_rna = PCA_new k rs,
      pca_spatial = PCA_new k rs,
      pca_sc_rna = PCA_new k rs,
      pca_joint = PCA_new k rs\<rparr>"

text \<open>
  \<^verbatim>\<open>np.hstack\<close> on two-dimensional arrays: the rows are appended array by array, in
  the order of the list.
\<close>

fun hstack :: "'a ndarray list \<Rightarrow> error + 'a ndarray" where
  "hstack [] = Inl ConcatenateError"
| "hstack [A] = Inr A"
| "hstack (A # As) =
     (case hstack As of
        Inl e \<Rightarrow> Inl e
      | Inr B \<Rightarrow> if shape0 A = shape0 B then Inr (map2 (@) A B) else Inl ConcatenateError)"

text \<open>
  What a call of a method leaves behind: the value returned or the exception raised,
  the integrator, the four argument arrays, and the generator state.
\<close>

record ('x, 'a, 'f, 'g) outcome =
  result :: "error + 'x"
  self_after :: "'f MultiOmicsIntegrator"
  inputs_after :: "'a ndarray \<times> 'a ndarray \<times> 'a ndarray \<times> 'a ndarray"
  rng_after :: 'g

text \<open>
  Lines 110 to 113 of \<^verbatim>\<open>fit_transform\<close>, "First level PCA per view": the four
  reducers are fit one after the other, each on its own layer. An exception ends the
  block and leaves the reducers fit so far as they are.
\<close>

definition first_level_pca ::
  "('a, 'f, 'g) reducer \<Rightarrow> 'f MultiOmicsIntegrator \<Rightarrow>
   'a ndarray \<Rightarrow> 'a ndarray \<Rightarrow> 'a ndarray \<Rightarrow> 'a ndarray \<Rightarrow> 'g \<Rightarrow>
   ('a ndarray \<times> 'a ndarray \<times> 'a ndarray \<times> 'a ndarray, 'a, 'f, 'g) outcome" where
  "first_level_pca R self metabolomics bulk_rna spatial_trans sc_rna g =
     (let c1 = R (pca_metabolomics self) metabolomics g;
          self1 = self\<lparr>pca_metabolomics := estimator c1\<rparr>
      in case returned c1 of
        Inl e \<Rightarrow>
          \<lparr>result = Inl e, self_after = self1,
           inputs_after = (argument c1, bulk_rna, spatial_trans, sc_rna),
           rng_after = global_rng c1\<rparr>
      | Inr latent_metabolomics \<Rightarrow>
     (let c2 = R (pca_bulk_rna self1) bulk_rna (global_rng c1);
          self2 = self1\<lparr>pca_bulk_rna := estimator c2\<rparr>
      in case returned c2 of
        Inl e \<Rightarrow>
          \<lparr>result = Inl e, self_after = self2,
           inputs_after = (argument c1, argument c2, spatial_trans, sc_rna),
           rng_after = global_rng c2\<rparr>
      | Inr latent_bulk \<Rightarrow>
     (let c3 = R (pca_spatial self2) spatial_trans (global_rng c2);
          self3 = self2\<lparr>pca_spatial := estimator c3\<rparr>
      in case returned c3 of
        Inl e \<Rightarrow>
          \<lparr>result = Inl e, self_after = self3,
           inputs_after = (argument c1, argument c2, argument c3, sc_rna),
           rng_after = global_rng c3\<rparr>
      | Inr latent_spatial \<Rightarrow>
     (let c4 = R (pca_sc_rna self3) sc_rna (global_rng c3);
          self4 = self3\<lparr>pca_sc_rna := estimator c4\<rparr>
      in case returned c4 of
        Inl e \<Rightarrow>
          \<lparr>result = Inl e, self_after = self4,
           inputs_after = (argument c1, argument c2, argument c3, argument c4),
           rng_after = global_rng c4\<rparr>
      | Inr latent_sc \<Rightarrow>
          \<lparr>result = Inr (latent_metabolomics, latent_bulk, latent_spatial, latent_sc),
           self_after = self4,
           inputs_after = (argument c1, argument c2, argument c3, argument c4),
           rng_after = global_rng c4\<rparr>))))"

text \<open>
  \<^verbatim>\<open>MultiOmicsIntegrator.fit_transform\<close>: the sanity check on the row counts, the
  first level, the concatenation of the four latent arrays, and the joint reducer.
\<close>

definition fit_transform ::
  "('a, 'f, 'g) reducer \<Rightarrow> 'f MultiOmicsIntegrator \<Rightarrow>
   'a ndarray \<Rightarrow> 'a ndarray \<Rightarrow> 'a ndarray \<Rightarrow> 'a ndarray \<Rightarrow> 'g \<Rightarrow>
   ('a ndarray, 'a, 'f, 'g) outcome" where
  "fit_transform R self metabolomics bulk_rna spatial_trans sc_rna g =
     (let n_samples = shape0 metabolomics
      in if \<not> (shape0 bulk_rna = n_samples \<and> shape0 spatial_trans = n_samples
               \<and> shape0 sc_rna = n_samples)
         then \<lparr>result = Inl ShapeMismatch, self_after = self,
               inputs_after = (metabolomics, bulk_rna, spatial_trans, sc_rna),
               rng_after = g\<rparr>
         else
           (let v = first_level_pca R self metabolomics bulk_rna spatial_trans sc_rna g
            in case result v of
              Inl e \<Rightarrow>
                \<lparr>result = Inl e, self_after = self_after v,
                 inputs_after = inputs_after v, rng_after = rng_after v\<rparr>
            | Inr (latent_metabolomics, latent_bulk, latent_spatial, latent_sc) \<Rightarrow>
                (case hstack [latent_metabolomics, latent_bulk, latent_spatial, latent_sc] of
                   Inl e \<Rightarrow>
                     \<lparr>result = Inl e, self_after = self_after v,
                      inputs_after = inputs_after v, rng_after = rng_after v\<rparr>
                 | Inr concatenated \<Rightarrow>
                     (let c5 = R (pca_joint (self_after v)) concatenated (rng_after v)
                      in \<lparr>result = returned c5,
                          self_after = (self_after v)\<lparr>pca_joint := estimator c5\<rparr>,
                          inputs_after = inputs_after v,
                          rng_after = global_rng c5\<rparr>))))"

section \<open>The demonstration\<close>

text \<open>
  \<^verbatim>\<open>np.random.default_rng\<close> and \<^verbatim>\<open>Generator.standard_normal\<close> are parameters: the
  first makes a generator of an open type \<open>'r\<close> from the seed, or raises; the second
  returns the array drawn, or the exception, and the generator after the draw.
\<close>

type_synonym ('a, 'r) sampler = "'r \<Rightarrow> int \<times> int \<Rightarrow> (error + 'a ndarray) \<times> 'r"

text \<open>
  \<^verbatim>\<open>demo\<close> returns the pair of the joint latent array and the integrator, or the
  exception raised on the way.
\<close>

definition demo ::
  "(int option \<Rightarrow> error + 'r) \<Rightarrow> ('a, 'r) sampler \<Rightarrow> ('a, 'f, 'g) reducer \<Rightarrow>
   int \<Rightarrow> int option \<Rightarrow> 'g \<Rightarrow> error + ('a ndarray \<times> 'f MultiOmicsIntegrator)" where
  "demo default_rng standard_normal R n_samples rs g =
     (case default_rng rs of
        Inl e \<Rightarrow> Inl e
      | Inr rng \<Rightarrow>
     (case standard_normal rng (n_samples, 50) of
        (Inl e, _) \<Rightarrow> Inl e
      | (Inr metabolomics, rng) \<Rightarrow>
     (case standard_normal rng (n_samples, 1000) of
        (Inl e, _) \<Rightarrow> Inl e
      | (Inr bulk_rna, rng) \<Rightarrow>
     (case standard_normal rng (n_samples, 200) of
        (Inl e, _) \<Rightarrow> Inl e
      | (Inr spatial_trans, rng) \<Rightarrow>
     (case standard_normal rng (n_samples, 500) of
        (Inl e, _) \<Rightarrow> Inl e
      | (Inr sc_rna, rng) \<Rightarrow>
     (let integrator = post_init 10 rs;
          call = fit_transform R integrator metabolomics bulk_rna spatial_trans sc_rna g
      in case result call of
           Inl e \<Rightarrow> Inl e
         | Inr integrated_latent \<Rightarrow> Inr (integrated_latent, self_after call)))))))"

section \<open>The contract of the reducer\<close>

text \<open>
  The properties of \<^verbatim>\<open>PCA.fit_transform\<close> that the theorems below rest on, each a
  predicate on the parameter \<open>R\<close>.
  \<^item> \<open>projects\<close>: with a positive \<^verbatim>\<open>n_components\<close> that is at most the row count and
    at most the column count of a rectangular array, the call returns an array with the
    same rows and \<^verbatim>\<open>n_components\<close> columns.
  \<^item> \<open>rejects\<close>: with an \<^verbatim>\<open>n_components\<close> above the row count or the column count,
    the call raises \<open>InvalidShape\<close>.
  \<^item> \<open>refits\<close>: the call does not read the fitted attributes of an earlier fit, and a
    call that returns overwrites them all. (A call that raises may leave them.)
  \<^item> \<open>keeps_params\<close>: the call leaves the constructor parameters of the estimator
    as they are.
  \<^item> \<open>generator_free R p\<close>: what the call returns and the estimator it leaves do not
    depend on the process-wide generator, for the estimator \<open>p\<close>; \<open>seeded R\<close> says
    so of every estimator whose \<^verbatim>\<open>random_state\<close> is set.
  \<^item> \<open>copies\<close>: the call leaves its argument array as it is (the estimator's default
    \<^verbatim>\<open>copy=True\<close>).
\<close>

definition fits_shape :: "int \<Rightarrow> 'a ndarray \<Rightarrow> bool" where
  "fits_shape k X = (k \<le> int (shape0 X) \<and> k \<le> int (shape1 X))"

definition projects :: "('a, 'f, 'g) reducer \<Rightarrow> bool" where
  "projects R =
     (\<forall>p X g. is_2d X \<and> 0 < pca_n_components p \<and> fits_shape (pca_n_components p) X \<longrightarrow>
        (\<exists>Y. returned (R p X g) = Inr Y \<and> is_2d Y \<and> shape0 Y = shape0 X
              \<and> int (shape1 Y) = pca_n_components p))"

definition rejects :: "('a, 'f, 'g) reducer \<Rightarrow> bool" where
  "rejects R =
     (\<forall>p X g. \<not> fits_shape (pca_n_components p) X \<longrightarrow> returned (R p X g) = Inl InvalidShape)"

definition refits :: "('a, 'f, 'g) reducer \<Rightarrow> bool" where
  "refits R =
     (\<forall>p X g f.
        returned (R (p\<lparr>fitted := f\<rparr>) X g) = returned (R p X g)
        \<and> argument (R (p\<lparr>fitted := f\<rparr>) X g) = argument (R p X g)
        \<and> global_rng (R (p\<lparr>fitted := f\<rparr>) X g) = global_rng (R p X g)
        \<and> (\<forall>Y. returned (R p X g) = Inr Y \<longrightarrow>
               estimator (R (p\<lparr>fitted := f\<rparr>) X g) = estimator (R p X g)))"

definition keeps_params :: "('a, 'f, 'g) reducer \<Rightarrow> bool" where
  "keeps_params R =
     (\<forall>p X g. pca_n_components (estimator (R p X g)) = pca_n_components p
              \<and> pca_random_state (estimator (R p X g)) = pca_random_state p)"

definition generator_free :: "('a, 'f, 'g) reducer \<Rightarrow> 'f PCA \<Rightarrow> bool" where
  "generator_free R p =
     (\<forall>X g g'. returned (R p X g) = returned (R p X g')
               \<and> estimator (R p X g) = estimator (R p X g'))"

definition seeded :: "('a, 'f, 'g) reducer \<Rightarrow> bool" where
  "seeded R = (\<forall>p. pca_random_state p \<noteq> None \<longrightarrow> generator_free R p)"

definition copies :: "('a, 'f, 'g) reducer \<Rightarrow> bool" where
  "copies R = (\<forall>p X g. argument (R p X g) = X)"

text \<open>
  The five estimators of an integrator carry the integrator's own parameters. This
  holds after \<^verbatim>\<open>__post_init__\<close>, and \<^verbatim>\<open>fit_transform\<close> keeps it.
\<close>

definition configured :: "'f MultiOmicsIntegrator \<Rightarrow> bool" where
  "configured self =
     list_all (\<lambda>p. pca_n_components p = n_components self
                   \<and> pca_random_state p = random_state self)
       [pca_metabolomics self, pca_bulk_rna self, pca_spatial self, pca_sc_rna self,
        pca_joint self]"

text \<open>
  The contract of \<^verbatim>\<open>standard_normal\<close>: asked for a positive number of rows and a
  number of columns that is not negative, it returns an array of that shape.
\<close>

definition draws_shape :: "('a, 'r) sampler \<Rightarrow> bool" where
  "draws_shape standard_normal =
     (\<forall>rng n f. 0 < n \<and> 0 \<le> f \<longrightarrow>
        (\<exists>X. fst (standard_normal rng (n, f)) = Inr X \<and> is_2d X
              \<and> int (shape0 X) = n \<and> int (shape1 X) = f))"

text \<open>
  The contract of \<^verbatim>\<open>default_rng\<close>: without a seed, or with a seed that is not negative,
  it returns a generator.
\<close>

definition valid_seed :: "int option \<Rightarrow> bool" where
  "valid_seed rs = (case rs of None \<Rightarrow> True | Some s \<Rightarrow> 0 \<le> s)"

definition seeds :: "(int option \<Rightarrow> error + 'r) \<Rightarrow> bool" where
  "seeds default_rng = (\<forall>rs. valid_seed rs \<longrightarrow> (\<exists>rng. default_rng rs = Inr rng))"

subsection \<open>Reducers and a sampler that meet their contracts\<close>

text \<open>
  \<open>leading_columns\<close> keeps the first \<^verbatim>\<open>n_components\<close> columns of its argument. Its
  fitted state is the column count it was fit on and the seed it used: its own
  \<^verbatim>\<open>random_state\<close>, or a draw from the process-wide generator, which it advances.
  It instantiates the theorems below at concrete arrays.
\<close>

definition leading_columns :: "('a, nat \<times> int, nat) reducer" where
  "leading_columns p X g =
     (let k = pca_n_components p
      in if is_2d X \<and> 0 < k \<and> fits_shape k X
         then \<lparr>returned = Inr (map (take (nat k)) X),
               estimator = p\<lparr>fitted :=
                 Some (shape1 X, case pca_random_state p of None \<Rightarrow> int g | Some s \<Rightarrow> s)\<rparr>,
               argument = X,
               global_rng = (case pca_random_state p of None \<Rightarrow> Suc g | Some s \<Rightarrow> g)\<rparr>
         else \<lparr>returned = Inl InvalidShape, estimator = p, argument = X, global_rng = g\<rparr>)"


text \<open>
  \<open>constant_sampler\<close> returns an array of the shape asked for, filled with the
  generator's counter, which it advances; \<open>counting_rng\<close> starts the counter at the
  seed, and raises for a negative seed.
\<close>

definition counting_rng :: "int option \<Rightarrow> error + int" where
  "counting_rng rs =
     (case rs of None \<Rightarrow> Inr 0 | Some s \<Rightarrow> if s < 0 then Inl InvalidSeed else Inr s)"

definition constant_sampler :: "(int, int) sampler" where
  "constant_sampler rng d =
     (case d of (n, f) \<Rightarrow>
        if n < 0 \<or> f < 0 then (Inl NegativeDimensions, rng)
        else (Inr (replicate (nat n) (replicate (nat f) rng)), rng + 1))"

section \<open>Shapes\<close>

lemma shape0_Nil [simp]: "shape0 [] = 0"
  by (simp add: shape0_def)

lemma shape0_Cons [simp]: "shape0 (r # X) = Suc (shape0 X)"
  by (simp add: shape0_def)

lemma shape1_Nil [simp]: "shape1 [] = 0"
  by (simp add: shape1_def)

lemma shape1_Cons [simp]: "shape1 (r # X) = length r"
  by (simp add: shape1_def)

lemma is_2d_Nil [simp]: "is_2d []"
  by (simp add: is_2d_def)

lemma is_2d_Cons: "is_2d (r # X) = list_all (\<lambda>q. length q = length r) X"
  by (simp add: is_2d_def)

lemma is_2d_rows: "is_2d X \<Longrightarrow> r \<in> set X \<Longrightarrow> length r = shape1 X"
  by (simp add: is_2d_def list_all_iff)

lemma is_2d_nth: "is_2d X \<Longrightarrow> i < shape0 X \<Longrightarrow> length (X ! i) = shape1 X"
  by (simp add: is_2d_rows shape0_def)

section \<open>The stand-ins meet the contract\<close>

lemma leading_columns_projects: "projects leading_columns"
  unfolding projects_def
proof (intro allI impI)
  fix p :: "(nat \<times> int) PCA" and X :: "'a ndarray" and g :: nat
  assume a: "is_2d X \<and> 0 < pca_n_components p \<and> fits_shape (pca_n_components p) X"
  let ?k = "pca_n_components p"
  let ?Y = "map (take (nat ?k)) X"
  have r: "returned (leading_columns p X g) = Inr ?Y"
    using a by (simp add: leading_columns_def)
  have len: "\<forall>r \<in> set X. length (take (nat ?k) r) = nat ?k"
    using a by (auto simp: fits_shape_def dest!: is_2d_rows)
  have s1: "shape1 ?Y = nat ?k"
    using a len by (cases X) (auto simp: fits_shape_def)
  have "is_2d ?Y"
    using len s1 by (simp add: is_2d_def list_all_iff)
  moreover have "shape0 ?Y = shape0 X" by (simp add: shape0_def)
  moreover have "int (shape1 ?Y) = ?k" using s1 a by simp
  ultimately show "\<exists>Y. returned (leading_columns p X g) = Inr Y \<and> is_2d Y
      \<and> shape0 Y = shape0 X \<and> int (shape1 Y) = pca_n_components p"
    using r by blast
qed

lemma leading_columns_rejects: "rejects leading_columns"
  by (simp add: rejects_def leading_columns_def)

lemma leading_columns_refits: "refits leading_columns"
  by (simp add: refits_def leading_columns_def Let_def)

lemma leading_columns_keeps_params: "keeps_params leading_columns"
  by (simp add: keeps_params_def leading_columns_def Let_def)

lemma leading_columns_seeded: "seeded leading_columns"
  by (auto simp: seeded_def generator_free_def leading_columns_def Let_def)

lemma leading_columns_copies: "copies leading_columns"
  by (simp add: copies_def leading_columns_def Let_def)

lemma shape_replicate:
  "0 < n \<Longrightarrow> is_2d (replicate n (replicate f x)) \<and> shape0 (replicate n (replicate f x)) = n
     \<and> shape1 (replicate n (replicate f x)) = f"
  by (cases n) (simp_all add: is_2d_def shape0_def list_all_iff)

lemma constant_sampler_draws_shape: "draws_shape constant_sampler"
  unfolding draws_shape_def
proof (intro allI impI)
  fix rng n f :: int
  assume a: "0 < n \<and> 0 \<le> f"
  then have "0 < nat n" by simp
  from shape_replicate [OF this, of "nat f" rng] a
  show "\<exists>X. fst (constant_sampler rng (n, f)) = Inr X \<and> is_2d X
          \<and> int (shape0 X) = n \<and> int (shape1 X) = f"
    by (simp add: constant_sampler_def)
qed

lemma counting_rng_seeds: "seeds counting_rng"
  by (auto simp: seeds_def valid_seed_def counting_rng_def split: option.splits)







lemma configured_post_init: "configured (post_init k rs)"
  by (simp add: configured_def post_init_def PCA_new_def)

section \<open>The sanity check\<close>

text \<open>
  C2. When the four arrays do not all have the row count of the first, the call raises
  \<open>ShapeMismatch\<close>, and it leaves the integrator with all its reducers, the four
  arrays and the generator exactly as they were. This holds for every reducer \<open>R\<close>,
  whatever a call of it would do: none is called.
\<close>

theorem fit_transform_row_mismatch:
  "\<not> (shape0 bulk_rna = shape0 metabolomics \<and> shape0 spatial_trans = shape0 metabolomics
      \<and> shape0 sc_rna = shape0 metabolomics) \<Longrightarrow>
   fit_transform R self metabolomics bulk_rna spatial_trans sc_rna g =
     \<lparr>result = Inl ShapeMismatch, self_after = self,
      inputs_after = (metabolomics, bulk_rna, spatial_trans, sc_rna), rng_after = g\<rparr>"
  by (simp add: fit_transform_def)

theorem fit_transform_row_mismatch_witness:
  "fit_transform leading_columns (post_init 10 None)
     [[1, 2 :: int]] [[3, 4], [5, 6]] [[7], [8]] [[9], [0]] 0 =
   \<lparr>result = Inl ShapeMismatch, self_after = post_init 10 None,
    inputs_after = ([[1, 2]], [[3, 4], [5, 6]], [[7], [8]], [[9], [0]]), rng_after = 0\<rparr>"
  using fit_transform_row_mismatch
    [of "[[3, 4], [5, 6]]" "[[1, 2 :: int]]" "[[7], [8]]" "[[9], [0]]"
        leading_columns "post_init 10 None" 0]
  by simp

section \<open>Concatenation\<close>

lemma map2_append_shape:
  assumes "is_2d A" "is_2d B" "shape0 A = shape0 B"
  shows "is_2d (map2 (@) A B) \<and> shape0 (map2 (@) A B) = shape0 A
         \<and> shape1 (map2 (@) A B) = shape1 A + shape1 B"
proof (cases A)
  case Nil
  then show ?thesis using assms by (simp add: shape0_def)
next
  case (Cons r A')
  then obtain q B' where B: "B = q # B'"
    using assms(3) by (cases B) (auto simp: shape0_def)
  have len: "length A' = length B'"
    using assms(3) Cons B by (simp add: shape0_def)
  have "\<forall>x \<in> set (zip A' B'). length (fst x) = length r \<and> length (snd x) = length q"
    using assms(1,2) Cons B by (auto simp: is_2d_Cons list_all_iff dest: set_zip_leftD set_zip_rightD)
  then have "list_all (\<lambda>t. length t = length r + length q) (map2 (@) A' B')"
    by (auto simp: list_all_iff)
  then show ?thesis
    using Cons B len by (simp add: is_2d_Cons shape0_def)
qed

lemma hstack4:
  assumes "is_2d l1" "is_2d l2" "is_2d l3" "is_2d l4"
    and "shape0 l2 = shape0 l1" "shape0 l3 = shape0 l1" "shape0 l4 = shape0 l1"
  shows "\<exists>Z. hstack [l1, l2, l3, l4] = Inr Z \<and> is_2d Z \<and> shape0 Z = shape0 l1
           \<and> shape1 Z = shape1 l1 + shape1 l2 + shape1 l3 + shape1 l4
           \<and> Z = map2 (@) l1 (map2 (@) l2 (map2 (@) l3 l4))"
proof -
  have a: "is_2d (map2 (@) l3 l4) \<and> shape0 (map2 (@) l3 l4) = shape0 l3
         \<and> shape1 (map2 (@) l3 l4) = shape1 l3 + shape1 l4"
    using assms by (intro map2_append_shape) simp_all
  have b: "is_2d (map2 (@) l2 (map2 (@) l3 l4))
         \<and> shape0 (map2 (@) l2 (map2 (@) l3 l4)) = shape0 l2
         \<and> shape1 (map2 (@) l2 (map2 (@) l3 l4)) = shape1 l2 + shape1 (map2 (@) l3 l4)"
    using assms a by (intro map2_append_shape) simp_all
  have c: "is_2d (map2 (@) l1 (map2 (@) l2 (map2 (@) l3 l4)))
         \<and> shape0 (map2 (@) l1 (map2 (@) l2 (map2 (@) l3 l4))) = shape0 l1
         \<and> shape1 (map2 (@) l1 (map2 (@) l2 (map2 (@) l3 l4)))
             = shape1 l1 + shape1 (map2 (@) l2 (map2 (@) l3 l4))"
    using assms b by (intro map2_append_shape) simp_all
  have "hstack [l1, l2, l3, l4] = Inr (map2 (@) l1 (map2 (@) l2 (map2 (@) l3 l4)))"
    using assms a b by simp
  then show ?thesis using a b c by simp
qed

section \<open>The first level\<close>

lemma first_level_pca_InrE:
  assumes "result (first_level_pca R self m b s c g) = Inr (l1, l2, l3, l4)"
  obtains g2 g3 g4 where
    "returned (R (pca_metabolomics self) m g) = Inr l1"
    "returned (R (pca_bulk_rna self) b g2) = Inr l2"
    "returned (R (pca_spatial self) s g3) = Inr l3"
    "returned (R (pca_sc_rna self) c g4) = Inr l4"
    "self_after (first_level_pca R self m b s c g) =
       self\<lparr>pca_metabolomics := estimator (R (pca_metabolomics self) m g),
            pca_bulk_rna := estimator (R (pca_bulk_rna self) b g2),
            pca_spatial := estimator (R (pca_spatial self) s g3),
            pca_sc_rna := estimator (R (pca_sc_rna self) c g4)\<rparr>"
    "inputs_after (first_level_pca R self m b s c g) =
       (argument (R (pca_metabolomics self) m g), argument (R (pca_bulk_rna self) b g2),
        argument (R (pca_spatial self) s g3), argument (R (pca_sc_rna self) c g4))"
    "rng_after (first_level_pca R self m b s c g) = global_rng (R (pca_sc_rna self) c g4)"
  using assms
  by (simp add: first_level_pca_def Let_def split: sum.splits)

lemma first_level_pca_projects:
  assumes R: "projects R" and conf: "configured self" and k: "0 < n_components self"
    and 2: "is_2d m" "is_2d b" "is_2d s" "is_2d c"
    and fit: "fits_shape (n_components self) m" "fits_shape (n_components self) b"
      "fits_shape (n_components self) s" "fits_shape (n_components self) c"
  shows "\<exists>l1 l2 l3 l4. result (first_level_pca R self m b s c g) = Inr (l1, l2, l3, l4)
           \<and> is_2d l1 \<and> shape0 l1 = shape0 m \<and> int (shape1 l1) = n_components self
           \<and> is_2d l2 \<and> shape0 l2 = shape0 b \<and> int (shape1 l2) = n_components self
           \<and> is_2d l3 \<and> shape0 l3 = shape0 s \<and> int (shape1 l3) = n_components self
           \<and> is_2d l4 \<and> shape0 l4 = shape0 c \<and> int (shape1 l4) = n_components self"
proof -
  have P: "\<And>p X g. pca_n_components p = n_components self \<Longrightarrow> is_2d X \<Longrightarrow>
      fits_shape (n_components self) X \<Longrightarrow>
      \<exists>Y. returned (R p X g) = Inr Y \<and> is_2d Y \<and> shape0 Y = shape0 X
           \<and> int (shape1 Y) = n_components self"
    using R k unfolding projects_def by metis
  have ks: "pca_n_components (pca_metabolomics self) = n_components self"
    "pca_n_components (pca_bulk_rna self) = n_components self"
    "pca_n_components (pca_spatial self) = n_components self"
    "pca_n_components (pca_sc_rna self) = n_components self"
    using conf by (simp_all add: configured_def)
  define c1 where "c1 = R (pca_metabolomics self) m g"
  obtain l1 where l1: "returned c1 = Inr l1" "is_2d l1" "shape0 l1 = shape0 m"
      "int (shape1 l1) = n_components self"
    unfolding c1_def using P [OF ks(1) 2(1) fit(1)] by blast
  define c2 where "c2 = R (pca_bulk_rna self) b (global_rng c1)"
  obtain l2 where l2: "returned c2 = Inr l2" "is_2d l2" "shape0 l2 = shape0 b"
      "int (shape1 l2) = n_components self"
    unfolding c2_def using P [OF ks(2) 2(2) fit(2)] by blast
  define c3 where "c3 = R (pca_spatial self) s (global_rng c2)"
  obtain l3 where l3: "returned c3 = Inr l3" "is_2d l3" "shape0 l3 = shape0 s"
      "int (shape1 l3) = n_components self"
    unfolding c3_def using P [OF ks(3) 2(3) fit(3)] by blast
  define c4 where "c4 = R (pca_sc_rna self) c (global_rng c3)"
  obtain l4 where l4: "returned c4 = Inr l4" "is_2d l4" "shape0 l4 = shape0 c"
      "int (shape1 l4) = n_components self"
    unfolding c4_def using P [OF ks(4) 2(4) fit(4)] by blast
  have "result (first_level_pca R self m b s c g) = Inr (l1, l2, l3, l4)"
    using l1(1) l2(1) l3(1) l4(1)
    by (simp add: first_level_pca_def Let_def c1_def c2_def c3_def c4_def)
  then show ?thesis using l1 l2 l3 l4 by blast
qed

lemma first_level_pca_joint:
  "pca_joint (self_after (first_level_pca R self m b s c g)) = pca_joint self"
  by (simp add: first_level_pca_def Let_def split: sum.splits)

lemma first_level_pca_params:
  "n_components (self_after (first_level_pca R self m b s c g)) = n_components self
   \<and> random_state (self_after (first_level_pca R self m b s c g)) = random_state self"
  by (simp add: first_level_pca_def Let_def split: sum.splits)

section \<open>Shape of the result\<close>

lemma fit_transform_returns:
  assumes R: "projects R" and conf: "configured self" and k: "0 < n_components self"
    and 2: "is_2d metabolomics" "is_2d bulk_rna" "is_2d spatial_trans" "is_2d sc_rna"
    and rows: "shape0 metabolomics = n" "shape0 bulk_rna = n" "shape0 spatial_trans = n"
      "shape0 sc_rna = n"
    and n: "n_components self \<le> int n"
    and cols: "n_components self \<le> int (shape1 metabolomics)"
      "n_components self \<le> int (shape1 bulk_rna)"
      "n_components self \<le> int (shape1 spatial_trans)"
      "n_components self \<le> int (shape1 sc_rna)"
  shows "\<exists>Y. result (fit_transform R self metabolomics bulk_rna spatial_trans sc_rna g) = Inr Y
           \<and> is_2d Y \<and> shape0 Y = n \<and> int (shape1 Y) = n_components self"
proof -
  let ?k = "n_components self"
  let ?v = "first_level_pca R self metabolomics bulk_rna spatial_trans sc_rna g"
  have fit: "fits_shape ?k metabolomics" "fits_shape ?k bulk_rna"
    "fits_shape ?k spatial_trans" "fits_shape ?k sc_rna"
    using rows n cols by (simp_all add: fits_shape_def)
  from first_level_pca_projects [OF R conf k 2 fit, of g]
  obtain l1 l2 l3 l4 where v: "result ?v = Inr (l1, l2, l3, l4)"
    and l1: "is_2d l1" "shape0 l1 = n" "int (shape1 l1) = ?k"
    and l2: "is_2d l2" "shape0 l2 = n" "int (shape1 l2) = ?k"
    and l3: "is_2d l3" "shape0 l3 = n" "int (shape1 l3) = ?k"
    and l4: "is_2d l4" "shape0 l4 = n" "int (shape1 l4) = ?k"
    using rows by auto
  from hstack4 [of l1 l2 l3 l4] l1 l2 l3 l4
  obtain Z where Z: "hstack [l1, l2, l3, l4] = Inr Z" "is_2d Z" "shape0 Z = n"
      "shape1 Z = shape1 l1 + shape1 l2 + shape1 l3 + shape1 l4"
    by auto
  have "int (shape1 Z) = 4 * ?k"
    using Z(4) l1(3) l2(3) l3(3) l4(3) by simp
  then have fitZ: "fits_shape ?k Z"
    using k n Z(3) by (simp add: fits_shape_def)
  have kj: "pca_n_components (pca_joint (self_after ?v)) = ?k"
    using conf by (simp add: first_level_pca_joint configured_def)
  from R kj k Z(2) fitZ
  obtain Y where Y: "returned (R (pca_joint (self_after ?v)) Z (rng_after ?v)) = Inr Y"
      "is_2d Y" "shape0 Y = shape0 Z" "int (shape1 Y) = ?k"
    unfolding projects_def by metis
  have "result (fit_transform R self metabolomics bulk_rna spatial_trans sc_rna g) = Inr Y"
    using rows v Z(1) Y(1) by (simp add: fit_transform_def Let_def)
  then show ?thesis using Y Z(3) by simp
qed

text \<open>
  C1. On an integrator with a positive \<^verbatim>\<open>n_components\<close>, for four arrays with the same
  row count \<open>n\<close>, where \<open>n\<close> and every column count are at least
  \<^verbatim>\<open>n_components\<close>, \<^verbatim>\<open>fit_transform\<close> returns an array of shape
  (\<open>n\<close>, \<^verbatim>\<open>n_components\<close>): the four latent arrays have \<open>n\<close> rows, their
  concatenation has \<open>4 * n_components\<close> columns, and the joint reducer accepts it.
\<close>

theorem fit_transform_shape:
  assumes R: "projects R" and conf: "configured self" and k: "0 < n_components self"
    and 2: "is_2d metabolomics" "is_2d bulk_rna" "is_2d spatial_trans" "is_2d sc_rna"
    and rows: "shape0 metabolomics = n" "shape0 bulk_rna = n" "shape0 spatial_trans = n"
      "shape0 sc_rna = n"
    and n: "n_components self \<le> int n"
    and cols: "n_components self \<le> int (shape1 metabolomics)"
      "n_components self \<le> int (shape1 bulk_rna)"
      "n_components self \<le> int (shape1 spatial_trans)"
      "n_components self \<le> int (shape1 sc_rna)"
  shows "\<exists>Y. result (fit_transform R self metabolomics bulk_rna spatial_trans sc_rna g) = Inr Y
           \<and> is_2d Y \<and> shape0 Y = n \<and> int (shape1 Y) = n_components self"
  using assms by (rule fit_transform_returns)

theorem fit_transform_shape_witness:
  "map_sum id (\<lambda>Y. (is_2d Y, shape0 Y, shape1 Y))
     (result (fit_transform leading_columns (post_init 2 None)
        [[1, 2], [3, 4], [5, 6 :: int]]
        [[1, 2, 3], [4, 5, 6], [7, 8, 9]]
        [[1, 0], [0, 1], [1, 1]]
        [[1, 2, 3, 4], [5, 6, 7, 8], [9, 10, 11, 12]] 0))
   = Inr (True, 3, 2)"
proof -
  have 2: "is_2d [[1, 2], [3, 4], [5, 6 :: int]]" "is_2d [[1, 2, 3], [4, 5, 6], [7, 8, 9 :: int]]"
    "is_2d [[1, 0], [0, 1], [1, 1 :: int]]"
    "is_2d [[1, 2, 3, 4], [5, 6, 7, 8], [9, 10, 11, 12 :: int]]"
    by (simp_all add: is_2d_Cons)
  from fit_transform_shape [OF leading_columns_projects configured_post_init _ 2,
      of 2 None 3 "0 :: nat"]
  show ?thesis by (auto simp: post_init_def)
qed

section \<open>Shapes a reducer cannot decompose\<close>

lemma first_level_pca_rejects:
  assumes P: "projects R" and N: "rejects R" and conf: "configured self"
    and 2: "is_2d m" "is_2d b" "is_2d s" "is_2d c"
    and bad: "\<not> (fits_shape (n_components self) m \<and> fits_shape (n_components self) b
                \<and> fits_shape (n_components self) s \<and> fits_shape (n_components self) c)"
  shows "result (first_level_pca R self m b s c g) = Inl InvalidShape"
proof -
  let ?k = "n_components self"
  have k: "0 < ?k"
    using bad by (auto simp: fits_shape_def)
  have ks: "pca_n_components (pca_metabolomics self) = ?k"
    "pca_n_components (pca_bulk_rna self) = ?k"
    "pca_n_components (pca_spatial self) = ?k"
    "pca_n_components (pca_sc_rna self) = ?k"
    using conf by (simp_all add: configured_def)
  have ok: "\<And>p X g. pca_n_components p = ?k \<Longrightarrow> is_2d X \<Longrightarrow> fits_shape ?k X \<Longrightarrow>
      \<exists>Y. returned (R p X g) = Inr Y"
    using P k unfolding projects_def by metis
  have no: "\<And>p X g. pca_n_components p = ?k \<Longrightarrow> \<not> fits_shape ?k X \<Longrightarrow>
      returned (R p X g) = Inl InvalidShape"
    using N unfolding rejects_def by metis
  define c1 where "c1 = R (pca_metabolomics self) m g"
  define c2 where "c2 = R (pca_bulk_rna self) b (global_rng c1)"
  define c3 where "c3 = R (pca_spatial self) s (global_rng c2)"
  define c4 where "c4 = R (pca_sc_rna self) c (global_rng c3)"
  have unfold: "first_level_pca R self m b s c g =
     (case returned c1 of
        Inl e \<Rightarrow> \<lparr>result = Inl e, self_after = self\<lparr>pca_metabolomics := estimator c1\<rparr>,
                  inputs_after = (argument c1, b, s, c), rng_after = global_rng c1\<rparr>
      | Inr l1 \<Rightarrow>
     (case returned c2 of
        Inl e \<Rightarrow> \<lparr>result = Inl e,
                  self_after = self\<lparr>pca_metabolomics := estimator c1,
                                    pca_bulk_rna := estimator c2\<rparr>,
                  inputs_after = (argument c1, argument c2, s, c), rng_after = global_rng c2\<rparr>
      | Inr l2 \<Rightarrow>
     (case returned c3 of
        Inl e \<Rightarrow> \<lparr>result = Inl e,
                  self_after = self\<lparr>pca_metabolomics := estimator c1,
                                    pca_bulk_rna := estimator c2,
                                    pca_spatial := estimator c3\<rparr>,
                  inputs_after = (argument c1, argument c2, argument c3, c),
                  rng_after = global_rng c3\<rparr>
      | Inr l3 \<Rightarrow>
     (case returned c4 of
        Inl e \<Rightarrow> \<lparr>result = Inl e,
                  self_after = self\<lparr>pca_metabolomics := estimator c1,
                                    pca_bulk_rna := estimator c2,
                                    pca_spatial := estimator c3,
                                    pca_sc_rna := estimator c4\<rparr>,
                  inputs_after = (argument c1, argument c2, argument c3, argument c4),
                  rng_after = global_rng c4\<rparr>
      | Inr l4 \<Rightarrow> \<lparr>result = Inr (l1, l2, l3, l4),
                  self_after = self\<lparr>pca_metabolomics := estimator c1,
                                    pca_bulk_rna := estimator c2,
                                    pca_spatial := estimator c3,
                                    pca_sc_rna := estimator c4\<rparr>,
                  inputs_after = (argument c1, argument c2, argument c3, argument c4),
                  rng_after = global_rng c4\<rparr>))))"
    by (simp add: first_level_pca_def Let_def c1_def c2_def c3_def c4_def split: sum.splits)
  consider (m) "\<not> fits_shape ?k m"
    | (b) "fits_shape ?k m" "\<not> fits_shape ?k b"
    | (s) "fits_shape ?k m" "fits_shape ?k b" "\<not> fits_shape ?k s"
    | (c) "fits_shape ?k m" "fits_shape ?k b" "fits_shape ?k s" "\<not> fits_shape ?k c"
    using bad by blast
  then show ?thesis
  proof cases
    case m
    then have "returned c1 = Inl InvalidShape"
      unfolding c1_def by (rule no [OF ks(1)])
    then show ?thesis by (simp add: unfold)
  next
    case b
    obtain l1 where "returned c1 = Inr l1"
      unfolding c1_def using ok [OF ks(1) 2(1) b(1)] by blast
    moreover have "returned c2 = Inl InvalidShape"
      unfolding c2_def by (rule no [OF ks(2) b(2)])
    ultimately show ?thesis by (simp add: unfold)
  next
    case s
    obtain l1 where "returned c1 = Inr l1"
      unfolding c1_def using ok [OF ks(1) 2(1) s(1)] by blast
    moreover obtain l2 where "returned c2 = Inr l2"
      unfolding c2_def using ok [OF ks(2) 2(2) s(2)] by blast
    moreover have "returned c3 = Inl InvalidShape"
      unfolding c3_def by (rule no [OF ks(3) s(3)])
    ultimately show ?thesis by (simp add: unfold)
  next
    case c
    obtain l1 where "returned c1 = Inr l1"
      unfolding c1_def using ok [OF ks(1) 2(1) c(1)] by blast
    moreover obtain l2 where "returned c2 = Inr l2"
      unfolding c2_def using ok [OF ks(2) 2(2) c(2)] by blast
    moreover obtain l3 where "returned c3 = Inr l3"
      unfolding c3_def using ok [OF ks(3) 2(3) c(3)] by blast
    moreover have "returned c4 = Inl InvalidShape"
      unfolding c4_def by (rule no [OF ks(4) c(4)])
    ultimately show ?thesis by (simp add: unfold)
  qed
qed

text \<open>
  C3, as the program has it. When the four arrays have the same row count and one of
  them has fewer rows or fewer columns than \<^verbatim>\<open>n_components\<close>, the call raises
  \<open>InvalidShape\<close>, the exception of the first reducer whose array is too small, and
  returns no array.
\<close>

theorem fit_transform_invalid_shape:
  assumes "projects R" and "rejects R" and "configured self"
    and "is_2d metabolomics" "is_2d bulk_rna" "is_2d spatial_trans" "is_2d sc_rna"
    and rows: "shape0 bulk_rna = shape0 metabolomics"
      "shape0 spatial_trans = shape0 metabolomics" "shape0 sc_rna = shape0 metabolomics"
    and small: "\<not> (fits_shape (n_components self) metabolomics
                  \<and> fits_shape (n_components self) bulk_rna
                  \<and> fits_shape (n_components self) spatial_trans
                  \<and> fits_shape (n_components self) sc_rna)"
  shows "result (fit_transform R self metabolomics bulk_rna spatial_trans sc_rna g)
           = Inl InvalidShape"
proof -
  have "result (first_level_pca R self metabolomics bulk_rna spatial_trans sc_rna g)
          = Inl InvalidShape"
    using assms(1-7) small by (rule first_level_pca_rejects)
  then show ?thesis
    using rows by (simp add: fit_transform_def Let_def)
qed

theorem fit_transform_invalid_shape_witness:
  "result (fit_transform leading_columns (post_init 10 (Some 42))
     [[1, 2], [3, 4 :: int]] [[1, 2, 3], [4, 5, 6]] [[1, 0], [0, 1]] [[1], [2]] 0)
   = Inl InvalidShape"
  by (rule fit_transform_invalid_shape
        [OF leading_columns_projects leading_columns_rejects configured_post_init])
     (simp_all add: is_2d_Cons fits_shape_def post_init_def)

text \<open>
  C3, as the claim states it, fails. Take \<^verbatim>\<open>n_components = 10\<close>, a bulk RNA layer of
  5 rows and 10 columns, and three other layers of 12 rows and 10 columns. One array has
  fewer rows than \<^verbatim>\<open>n_components\<close>, and the exception raised is \<open>ShapeMismatch\<close>,
  from the sanity check, before any reducer is given an array.
\<close>

theorem fit_transform_invalid_shape_counterexample:
  "int (shape0 (replicate 5 (replicate 10 (0 :: int))))
     < n_components (post_init 10 None :: (nat \<times> int) MultiOmicsIntegrator)
   \<and> result (fit_transform leading_columns (post_init 10 None)
        (replicate 12 (replicate 10 (0 :: int))) (replicate 5 (replicate 10 0))
        (replicate 12 (replicate 10 0)) (replicate 12 (replicate 10 0)) 0)
       = Inl ShapeMismatch
   \<and> result (fit_transform leading_columns (post_init 10 None)
        (replicate 12 (replicate 10 (0 :: int))) (replicate 5 (replicate 10 0))
        (replicate 12 (replicate 10 0)) (replicate 12 (replicate 10 0)) 0)
       \<noteq> Inl InvalidShape"
  by (simp add: fit_transform_def post_init_def shape0_def)

section \<open>The concatenated array\<close>

lemma hstack4_rows:
  assumes "hstack [l1, l2, l3, l4] = Inr Z"
  shows "shape0 l1 = shape0 Z \<and> shape0 l2 = shape0 Z \<and> shape0 l3 = shape0 Z
         \<and> shape0 l4 = shape0 Z
         \<and> (\<forall>i < shape0 Z. Z ! i = l1 ! i @ l2 ! i @ l3 ! i @ l4 ! i)"
  using assms by (auto simp: shape0_def split: if_splits)

lemma returned_shape:
  assumes P: "projects R" and N: "rejects R" and k: "0 < pca_n_components p"
    and 2: "is_2d X" and r: "returned (R p X g) = Inr Y"
  shows "is_2d Y \<and> shape0 Y = shape0 X \<and> int (shape1 Y) = pca_n_components p"
proof -
  have "fits_shape (pca_n_components p) X"
    using N r unfolding rejects_def by (metis Inl_Inr_False)
  then show ?thesis
    using P k 2 r unfolding projects_def by (metis sum.inject(2))
qed

lemma fit_transform_result:
  "result (fit_transform R self m b s c g) =
     (if \<not> (shape0 b = shape0 m \<and> shape0 s = shape0 m \<and> shape0 c = shape0 m)
      then Inl ShapeMismatch
      else case result (first_level_pca R self m b s c g) of
        Inl e \<Rightarrow> Inl e
      | Inr (l1, l2, l3, l4) \<Rightarrow>
          (case hstack [l1, l2, l3, l4] of
             Inl e \<Rightarrow> Inl e
           | Inr Z \<Rightarrow>
               returned (R (pca_joint self) Z (rng_after (first_level_pca R self m b s c g)))))"
  by (simp add: fit_transform_def Let_def first_level_pca_joint del: hstack.simps
      split: sum.splits prod.splits)

lemma fit_transform_InrE:
  assumes "result (fit_transform R self m b s c g) = Inr Y"
  obtains l1 l2 l3 l4 Z where
    "result (first_level_pca R self m b s c g) = Inr (l1, l2, l3, l4)"
    "hstack [l1, l2, l3, l4] = Inr Z"
    "returned (R (pca_joint self) Z (rng_after (first_level_pca R self m b s c g))) = Inr Y"
  using assms unfolding fit_transform_result
  by (auto simp del: hstack.simps split: if_splits sum.splits prod.splits)

text \<open>
  C4. In a call that returns, the array handed to the joint reducer is the
  concatenation of the four latent arrays of the first level: its row \<open>i\<close> is row
  \<open>i\<close> of the metabolomics latent, followed by that of the bulk RNA latent, the
  spatial latent and the single-cell latent, in this order. It has
  \<open>4 * n_components\<close> columns, and the array returned is what the joint reducer
  returns on it.
\<close>

theorem fit_transform_concatenated:
  assumes P: "projects R" and N: "rejects R" and conf: "configured self"
    and k: "0 < n_components self"
    and 2: "is_2d metabolomics" "is_2d bulk_rna" "is_2d spatial_trans" "is_2d sc_rna"
    and ok: "result (fit_transform R self metabolomics bulk_rna spatial_trans sc_rna g) = Inr Y"
  shows "\<exists>latent_metabolomics latent_bulk latent_spatial latent_sc concatenated g'.
           result (first_level_pca R self metabolomics bulk_rna spatial_trans sc_rna g)
             = Inr (latent_metabolomics, latent_bulk, latent_spatial, latent_sc)
           \<and> hstack [latent_metabolomics, latent_bulk, latent_spatial, latent_sc]
               = Inr concatenated
           \<and> (\<forall>i < shape0 concatenated.
                 concatenated ! i = latent_metabolomics ! i @ latent_bulk ! i
                                    @ latent_spatial ! i @ latent_sc ! i)
           \<and> is_2d concatenated
           \<and> shape0 concatenated = shape0 metabolomics
           \<and> int (shape1 concatenated) = 4 * n_components self
           \<and> returned (R (pca_joint self) concatenated g') = Inr Y"
proof -
  let ?k = "n_components self"
  let ?v = "first_level_pca R self metabolomics bulk_rna spatial_trans sc_rna g"
  have rows: "shape0 bulk_rna = shape0 metabolomics"
    "shape0 spatial_trans = shape0 metabolomics" "shape0 sc_rna = shape0 metabolomics"
    using ok by (auto simp: fit_transform_def Let_def split: if_splits)
  from ok obtain l1 l2 l3 l4 Z where v: "result ?v = Inr (l1, l2, l3, l4)"
    and Z: "hstack [l1, l2, l3, l4] = Inr Z"
    and joint: "returned (R (pca_joint self) Z (rng_after ?v)) = Inr Y"
    by (rule fit_transform_InrE)
  have ks: "pca_n_components (pca_metabolomics self) = ?k"
    "pca_n_components (pca_bulk_rna self) = ?k"
    "pca_n_components (pca_spatial self) = ?k"
    "pca_n_components (pca_sc_rna self) = ?k"
    using conf by (simp_all add: configured_def)
  from v obtain g2 g3 g4 where r:
    "returned (R (pca_metabolomics self) metabolomics g) = Inr l1"
    "returned (R (pca_bulk_rna self) bulk_rna g2) = Inr l2"
    "returned (R (pca_spatial self) spatial_trans g3) = Inr l3"
    "returned (R (pca_sc_rna self) sc_rna g4) = Inr l4"
    by (rule first_level_pca_InrE)
  have l1: "is_2d l1 \<and> shape0 l1 = shape0 metabolomics \<and> int (shape1 l1) = ?k"
    using returned_shape [OF P N _ 2(1) r(1)] k ks(1) by simp
  have l2: "is_2d l2 \<and> shape0 l2 = shape0 bulk_rna \<and> int (shape1 l2) = ?k"
    using returned_shape [OF P N _ 2(2) r(2)] k ks(2) by simp
  have l3: "is_2d l3 \<and> shape0 l3 = shape0 spatial_trans \<and> int (shape1 l3) = ?k"
    using returned_shape [OF P N _ 2(3) r(3)] k ks(3) by simp
  have l4: "is_2d l4 \<and> shape0 l4 = shape0 sc_rna \<and> int (shape1 l4) = ?k"
    using returned_shape [OF P N _ 2(4) r(4)] k ks(4) by simp
  from hstack4 [of l1 l2 l3 l4] l1 l2 l3 l4 rows Z
  have shapeZ: "is_2d Z" "shape0 Z = shape0 metabolomics"
    "shape1 Z = shape1 l1 + shape1 l2 + shape1 l3 + shape1 l4"
    by auto
  have width: "int (shape1 Z) = 4 * ?k"
    using shapeZ(3) l1 l2 l3 l4 by simp
  have order: "\<forall>i < shape0 Z. Z ! i = l1 ! i @ l2 ! i @ l3 ! i @ l4 ! i"
    using hstack4_rows [OF Z] by simp
  show ?thesis
    using v Z order shapeZ(1,2) width joint by blast
qed

theorem fit_transform_concatenated_witness:
  "result (first_level_pca leading_columns (post_init 2 None)
       [[1, 2], [3, 4 :: int]] [[5, 6, 7], [8, 9, 10]] [[11, 12], [13, 14]] [[15, 16], [17, 18]]
       (0 :: nat))
     = Inr ([[1, 2], [3, 4]], [[5, 6], [8, 9]], [[11, 12], [13, 14]], [[15, 16], [17, 18]])
   \<and> hstack [[[1, 2], [3, 4 :: int]], [[5, 6], [8, 9]], [[11, 12], [13, 14]],
        [[15, 16], [17, 18]]]
     = Inr [[1, 2, 5, 6, 11, 12, 15, 16], [3, 4, 8, 9, 13, 14, 17, 18]]
   \<and> result (fit_transform leading_columns (post_init 2 None)
       [[1, 2], [3, 4 :: int]] [[5, 6, 7], [8, 9, 10]] [[11, 12], [13, 14]] [[15, 16], [17, 18]]
       (0 :: nat))
     = Inr [[1, 2], [3, 4]]
   \<and> (\<exists>g'. returned (leading_columns (pca_joint (post_init 2 None))
          [[1, 2, 5, 6, 11, 12, 15, 16], [3, 4, 8, 9, 13, 14, 17, 18 :: int]] g')
        = Inr [[1, 2], [3, 4]])"
proof -
  have ok: "result (fit_transform leading_columns (post_init 2 None)
       [[1, 2], [3, 4 :: int]] [[5, 6, 7], [8, 9, 10]] [[11, 12], [13, 14]] [[15, 16], [17, 18]]
       (0 :: nat)) = Inr [[1, 2], [3, 4]]"
    by (simp add: fit_transform_def first_level_pca_def leading_columns_def post_init_def
        PCA_new_def Let_def is_2d_Cons fits_shape_def shape0_def numeral_2_eq_2)
  have 2: "is_2d [[1, 2], [3, 4 :: int]]" "is_2d [[5, 6, 7], [8, 9, 10 :: int]]"
    "is_2d [[11, 12], [13, 14 :: int]]" "is_2d [[15, 16], [17, 18 :: int]]"
    by (simp_all add: is_2d_Cons)
  have k: "0 < n_components (post_init 2 None :: (nat \<times> int) MultiOmicsIntegrator)"
    by (simp add: post_init_def)
  from fit_transform_concatenated
    [OF leading_columns_projects leading_columns_rejects configured_post_init k 2 ok]
  obtain l1 l2 l3 l4 Z g' where
    "result (first_level_pca leading_columns (post_init 2 None)
       [[1, 2], [3, 4 :: int]] [[5, 6, 7], [8, 9, 10]] [[11, 12], [13, 14]] [[15, 16], [17, 18]]
       (0 :: nat)) = Inr (l1, l2, l3, l4)"
    "hstack [l1, l2, l3, l4] = Inr Z"
    "returned (leading_columns (pca_joint (post_init 2 None)) Z g') = Inr [[1, 2], [3, 4]]"
    by blast
  moreover have "result (first_level_pca leading_columns (post_init 2 None)
       [[1, 2], [3, 4 :: int]] [[5, 6, 7], [8, 9, 10]] [[11, 12], [13, 14]] [[15, 16], [17, 18]]
       (0 :: nat))
     = Inr ([[1, 2], [3, 4]], [[5, 6], [8, 9]], [[11, 12], [13, 14]], [[15, 16], [17, 18]])"
    by (simp add: first_level_pca_def leading_columns_def post_init_def
        PCA_new_def Let_def is_2d_Cons fits_shape_def shape0_def numeral_2_eq_2)
  moreover have "hstack [[[1, 2], [3, 4 :: int]], [[5, 6], [8, 9]], [[11, 12], [13, 14]],
        [[15, 16], [17, 18]]]
     = Inr [[1, 2, 5, 6, 11, 12, 15, 16], [3, 4, 8, 9, 13, 14, 17, 18]]"
    by (simp add: shape0_def)
  ultimately show ?thesis using ok by auto
qed

section \<open>Independence of the process-wide generator\<close>

lemma fit_transform_self_after:
  "self_after (fit_transform R self m b s c g) =
     (if \<not> (shape0 b = shape0 m \<and> shape0 s = shape0 m \<and> shape0 c = shape0 m)
      then self
      else case result (first_level_pca R self m b s c g) of
        Inl e \<Rightarrow> self_after (first_level_pca R self m b s c g)
      | Inr (l1, l2, l3, l4) \<Rightarrow>
          (case hstack [l1, l2, l3, l4] of
             Inl e \<Rightarrow> self_after (first_level_pca R self m b s c g)
           | Inr Z \<Rightarrow>
               (self_after (first_level_pca R self m b s c g))
                 \<lparr>pca_joint := estimator (R (pca_joint self) Z
                    (rng_after (first_level_pca R self m b s c g)))\<rparr>))"
  by (simp add: fit_transform_def Let_def first_level_pca_joint del: hstack.simps
      split: sum.splits prod.splits)

lemma first_level_pca_generator_free:
  assumes "generator_free R (pca_metabolomics self)" "generator_free R (pca_bulk_rna self)"
    "generator_free R (pca_spatial self)" "generator_free R (pca_sc_rna self)"
  shows "result (first_level_pca R self m b s c g) = result (first_level_pca R self m b s c g')
         \<and> self_after (first_level_pca R self m b s c g)
             = self_after (first_level_pca R self m b s c g')"
proof -
  define ret where "ret = (\<lambda>p X. returned (R p X g))"
  define est where "est = (\<lambda>p X. estimator (R p X g))"
  have r: "\<And>X h. returned (R (pca_metabolomics self) X h) = ret (pca_metabolomics self) X"
    "\<And>X h. returned (R (pca_bulk_rna self) X h) = ret (pca_bulk_rna self) X"
    "\<And>X h. returned (R (pca_spatial self) X h) = ret (pca_spatial self) X"
    "\<And>X h. returned (R (pca_sc_rna self) X h) = ret (pca_sc_rna self) X"
    using assms unfolding generator_free_def ret_def by blast+
  have e: "\<And>X h. estimator (R (pca_metabolomics self) X h) = est (pca_metabolomics self) X"
    "\<And>X h. estimator (R (pca_bulk_rna self) X h) = est (pca_bulk_rna self) X"
    "\<And>X h. estimator (R (pca_spatial self) X h) = est (pca_spatial self) X"
    "\<And>X h. estimator (R (pca_sc_rna self) X h) = est (pca_sc_rna self) X"
    using assms unfolding generator_free_def est_def by blast+
  show ?thesis
    by (simp add: first_level_pca_def Let_def r e split: sum.splits)
qed

lemma fit_transform_generator_free:
  assumes 4: "generator_free R (pca_metabolomics self)" "generator_free R (pca_bulk_rna self)"
    "generator_free R (pca_spatial self)" "generator_free R (pca_sc_rna self)"
    and j: "generator_free R (pca_joint self)"
  shows "result (fit_transform R self m b s c g) = result (fit_transform R self m b s c g')
         \<and> self_after (fit_transform R self m b s c g)
             = self_after (fit_transform R self m b s c g')"
proof -
  let ?v = "first_level_pca R self m b s c g"
  let ?v' = "first_level_pca R self m b s c g'"
  have v: "result ?v' = result ?v" "self_after ?v' = self_after ?v"
    using first_level_pca_generator_free [OF 4, of m b s c g g'] by simp_all
  have jr: "\<And>Z. returned (R (pca_joint self) Z (rng_after ?v'))
                 = returned (R (pca_joint self) Z (rng_after ?v))"
    and je: "\<And>Z. estimator (R (pca_joint self) Z (rng_after ?v'))
                 = estimator (R (pca_joint self) Z (rng_after ?v))"
    using j unfolding generator_free_def by blast+
  show ?thesis
    unfolding fit_transform_result fit_transform_self_after v jr je by simp
qed

lemma post_init_estimators:
  "pca_metabolomics (post_init k rs) = PCA_new k rs" "pca_bulk_rna (post_init k rs) = PCA_new k rs"
  "pca_spatial (post_init k rs) = PCA_new k rs" "pca_sc_rna (post_init k rs) = PCA_new k rs"
  "pca_joint (post_init k rs) = PCA_new k rs"
  by (simp_all add: post_init_def)

text \<open>
  C5. With a reducer whose seeded estimators do not depend on the process-wide
  generator, two calls of \<^verbatim>\<open>fit_transform\<close> on two freshly constructed integrators
  with the same \<^verbatim>\<open>n_components\<close> and the same seed, on the same four arrays, return
  the same array (or raise the same exception) and leave equal integrators, whatever
  the state of the generator at either call: \<^verbatim>\<open>__post_init__\<close> hands the seed to
  each of the five estimators.
\<close>

theorem fit_transform_two_runs:
  assumes "seeded R"
  shows "result (fit_transform R (post_init k (Some seed)) metabolomics bulk_rna spatial_trans
             sc_rna g)
         = result (fit_transform R (post_init k (Some seed)) metabolomics bulk_rna spatial_trans
             sc_rna g')
       \<and> self_after (fit_transform R (post_init k (Some seed)) metabolomics bulk_rna
             spatial_trans sc_rna g)
         = self_after (fit_transform R (post_init k (Some seed)) metabolomics bulk_rna
             spatial_trans sc_rna g')"
proof -
  have "generator_free R (PCA_new k (Some seed))"
    using assms by (simp add: seeded_def PCA_new_def)
  then show ?thesis
    by (intro fit_transform_generator_free) (simp_all add: post_init_estimators)
qed

theorem fit_transform_two_runs_witness:
  "seeded (leading_columns :: (int, nat \<times> int, nat) reducer)
   \<and> result (fit_transform leading_columns (post_init 1 (Some 42))
         [[1, 2], [3, 4 :: int]] [[5], [6]] [[7], [8]] [[9], [10]] 0)
     = result (fit_transform leading_columns (post_init 1 (Some 42))
         [[1, 2], [3, 4 :: int]] [[5], [6]] [[7], [8]] [[9], [10]] 7)
   \<and> result (fit_transform leading_columns (post_init 1 (Some 42))
         [[1, 2], [3, 4 :: int]] [[5], [6]] [[7], [8]] [[9], [10]] 0) = Inr [[1], [3]]"
proof -
  have "result (fit_transform leading_columns (post_init 1 (Some 42))
         [[1, 2], [3, 4 :: int]] [[5], [6]] [[7], [8]] [[9], [10]] 0) = Inr [[1], [3]]"
    by (simp add: fit_transform_def first_level_pca_def leading_columns_def post_init_def
        PCA_new_def Let_def is_2d_Cons fits_shape_def shape0_def)
  then show ?thesis
    using fit_transform_two_runs [OF leading_columns_seeded, of 1 42
        "[[1, 2], [3, 4 :: int]]" "[[5], [6]]" "[[7], [8]]" "[[9], [10]]" 0 7]
      leading_columns_seeded
    by simp
qed

section \<open>The layers do not interfere\<close>






section \<open>Calling again\<close>

lemma refits_call:
  assumes R: "refits R"
    and p: "pca_n_components p' = pca_n_components p" "pca_random_state p' = pca_random_state p"
    and ok: "returned (R p X g) = Inr Y"
  shows "R p' X g = R p X g"
proof -
  have "p' = p\<lparr>fitted := fitted p'\<rparr>"
    using p by (cases p, cases p') simp
  then obtain f where p': "p' = p\<lparr>fitted := f\<rparr>" ..
  have "returned (R p' X g) = returned (R p X g)" "argument (R p' X g) = argument (R p X g)"
    "global_rng (R p' X g) = global_rng (R p X g)" "estimator (R p' X g) = estimator (R p X g)"
    using R ok unfolding refits_def p' by blast+
  then show ?thesis by (auto intro!: pca_call.equality)
qed

lemma first_level_pca_refit:
  assumes R: "refits R"
    and n: "n_components self' = n_components self" "random_state self' = random_state self"
    and p1: "pca_n_components (pca_metabolomics self') = pca_n_components (pca_metabolomics self)"
      "pca_random_state (pca_metabolomics self') = pca_random_state (pca_metabolomics self)"
    and p2: "pca_n_components (pca_bulk_rna self') = pca_n_components (pca_bulk_rna self)"
      "pca_random_state (pca_bulk_rna self') = pca_random_state (pca_bulk_rna self)"
    and p3: "pca_n_components (pca_spatial self') = pca_n_components (pca_spatial self)"
      "pca_random_state (pca_spatial self') = pca_random_state (pca_spatial self)"
    and p4: "pca_n_components (pca_sc_rna self') = pca_n_components (pca_sc_rna self)"
      "pca_random_state (pca_sc_rna self') = pca_random_state (pca_sc_rna self)"
    and ok: "result (first_level_pca R self m b s c g) = Inr L"
  shows "first_level_pca R self' m b s c g =
           (first_level_pca R self m b s c g)
             \<lparr>self_after := (self_after (first_level_pca R self m b s c g))
                \<lparr>pca_joint := pca_joint self'\<rparr>\<rparr>"
proof -
  define c1 where "c1 = R (pca_metabolomics self) m g"
  define c2 where "c2 = R (pca_bulk_rna self) b (global_rng c1)"
  define c3 where "c3 = R (pca_spatial self) s (global_rng c2)"
  define c4 where "c4 = R (pca_sc_rna self) c (global_rng c3)"
  from ok obtain l1 l2 l3 l4 where l: "returned c1 = Inr l1" "returned c2 = Inr l2"
      "returned c3 = Inr l3" "returned c4 = Inr l4"
    by (auto simp: first_level_pca_def Let_def c1_def c2_def c3_def c4_def split: sum.splits)
  have e1: "R (pca_metabolomics self') m g = c1"
    unfolding c1_def using R p1 l(1) [unfolded c1_def] by (rule refits_call)
  have e2: "R (pca_bulk_rna self') b (global_rng c1) = c2"
    unfolding c2_def using R p2 l(2) [unfolded c2_def] by (rule refits_call)
  have e3: "R (pca_spatial self') s (global_rng c2) = c3"
    unfolding c3_def using R p3 l(3) [unfolded c3_def] by (rule refits_call)
  have e4: "R (pca_sc_rna self') c (global_rng c3) = c4"
    unfolding c4_def using R p4 l(4) [unfolded c4_def] by (rule refits_call)
  have old: "first_level_pca R self m b s c g =
      \<lparr>result = Inr (l1, l2, l3, l4),
       self_after = self\<lparr>pca_metabolomics := estimator c1, pca_bulk_rna := estimator c2,
                         pca_spatial := estimator c3, pca_sc_rna := estimator c4\<rparr>,
       inputs_after = (argument c1, argument c2, argument c3, argument c4),
       rng_after = global_rng c4\<rparr>"
    using l [unfolded c1_def c2_def c3_def c4_def]
    by (simp add: first_level_pca_def Let_def c1_def c2_def c3_def c4_def)
  have new: "first_level_pca R self' m b s c g =
      \<lparr>result = Inr (l1, l2, l3, l4),
       self_after = self'\<lparr>pca_metabolomics := estimator c1, pca_bulk_rna := estimator c2,
                          pca_spatial := estimator c3, pca_sc_rna := estimator c4\<rparr>,
       inputs_after = (argument c1, argument c2, argument c3, argument c4),
       rng_after = global_rng c4\<rparr>"
    using l by (simp add: first_level_pca_def Let_def e1 e2 e3 e4)
  have "self'\<lparr>pca_metabolomics := estimator c1, pca_bulk_rna := estimator c2,
              pca_spatial := estimator c3, pca_sc_rna := estimator c4\<rparr>
      = self\<lparr>pca_metabolomics := estimator c1, pca_bulk_rna := estimator c2,
             pca_spatial := estimator c3, pca_sc_rna := estimator c4,
             pca_joint := pca_joint self'\<rparr>"
    using n by (cases self, cases self') simp
  then show ?thesis
    unfolding old new by simp
qed

lemma fit_transform_refit:
  assumes R: "refits R"
    and n: "n_components self' = n_components self" "random_state self' = random_state self"
    and p1: "pca_n_components (pca_metabolomics self') = pca_n_components (pca_metabolomics self)"
      "pca_random_state (pca_metabolomics self') = pca_random_state (pca_metabolomics self)"
    and p2: "pca_n_components (pca_bulk_rna self') = pca_n_components (pca_bulk_rna self)"
      "pca_random_state (pca_bulk_rna self') = pca_random_state (pca_bulk_rna self)"
    and p3: "pca_n_components (pca_spatial self') = pca_n_components (pca_spatial self)"
      "pca_random_state (pca_spatial self') = pca_random_state (pca_spatial self)"
    and p4: "pca_n_components (pca_sc_rna self') = pca_n_components (pca_sc_rna self)"
      "pca_random_state (pca_sc_rna self') = pca_random_state (pca_sc_rna self)"
    and p5: "pca_n_components (pca_joint self') = pca_n_components (pca_joint self)"
      "pca_random_state (pca_joint self') = pca_random_state (pca_joint self)"
    and ok: "result (fit_transform R self m b s c g) = Inr Y"
  shows "fit_transform R self' m b s c g = fit_transform R self m b s c g"
proof -
  let ?v = "first_level_pca R self m b s c g"
  let ?v' = "first_level_pca R self' m b s c g"
  from ok obtain l1 l2 l3 l4 Z where v: "result ?v = Inr (l1, l2, l3, l4)"
    and Z: "hstack [l1, l2, l3, l4] = Inr Z"
    and joint: "returned (R (pca_joint self) Z (rng_after ?v)) = Inr Y"
    by (rule fit_transform_InrE)
  have v': "?v' = ?v\<lparr>self_after := (self_after ?v)\<lparr>pca_joint := pca_joint self'\<rparr>\<rparr>"
    using R n p1 p2 p3 p4 v by (rule first_level_pca_refit)
  have c5: "R (pca_joint self') Z (rng_after ?v) = R (pca_joint self) Z (rng_after ?v)"
    using R p5 joint by (rule refits_call)
  have old: "fit_transform R self m b s c g =
      (if \<not> (shape0 b = shape0 m \<and> shape0 s = shape0 m \<and> shape0 c = shape0 m)
       then \<lparr>result = Inl ShapeMismatch, self_after = self, inputs_after = (m, b, s, c),
             rng_after = g\<rparr>
       else \<lparr>result = returned (R (pca_joint self) Z (rng_after ?v)),
             self_after = (self_after ?v)
               \<lparr>pca_joint := estimator (R (pca_joint self) Z (rng_after ?v))\<rparr>,
             inputs_after = inputs_after ?v,
             rng_after = global_rng (R (pca_joint self) Z (rng_after ?v))\<rparr>)"
    using v Z by (simp add: fit_transform_def Let_def first_level_pca_joint del: hstack.simps)
  have new: "fit_transform R self' m b s c g =
      (if \<not> (shape0 b = shape0 m \<and> shape0 s = shape0 m \<and> shape0 c = shape0 m)
       then \<lparr>result = Inl ShapeMismatch, self_after = self', inputs_after = (m, b, s, c),
             rng_after = g\<rparr>
       else \<lparr>result = returned (R (pca_joint self) Z (rng_after ?v)),
             self_after = (self_after ?v)
               \<lparr>pca_joint := estimator (R (pca_joint self) Z (rng_after ?v))\<rparr>,
             inputs_after = inputs_after ?v,
             rng_after = global_rng (R (pca_joint self) Z (rng_after ?v))\<rparr>)"
    using v Z unfolding fit_transform_def v' by (simp add: Let_def c5 del: hstack.simps)
  have "shape0 b = shape0 m \<and> shape0 s = shape0 m \<and> shape0 c = shape0 m"
    using ok unfolding fit_transform_result by (simp split: if_splits)
  then show ?thesis
    unfolding old new by simp
qed

lemma first_level_pca_keeps_params:
  assumes "keeps_params R"
  shows "pca_n_components (pca_metabolomics (self_after (first_level_pca R self m b s c g)))
           = pca_n_components (pca_metabolomics self)"
    "pca_random_state (pca_metabolomics (self_after (first_level_pca R self m b s c g)))
           = pca_random_state (pca_metabolomics self)"
    "pca_n_components (pca_bulk_rna (self_after (first_level_pca R self m b s c g)))
           = pca_n_components (pca_bulk_rna self)"
    "pca_random_state (pca_bulk_rna (self_after (first_level_pca R self m b s c g)))
           = pca_random_state (pca_bulk_rna self)"
    "pca_n_components (pca_spatial (self_after (first_level_pca R self m b s c g)))
           = pca_n_components (pca_spatial self)"
    "pca_random_state (pca_spatial (self_after (first_level_pca R self m b s c g)))
           = pca_random_state (pca_spatial self)"
    "pca_n_components (pca_sc_rna (self_after (first_level_pca R self m b s c g)))
           = pca_n_components (pca_sc_rna self)"
    "pca_random_state (pca_sc_rna (self_after (first_level_pca R self m b s c g)))
           = pca_random_state (pca_sc_rna self)"
  using assms unfolding keeps_params_def
  by (simp_all add: first_level_pca_def Let_def split: sum.splits)

lemma fit_transform_keeps_params:
  assumes "keeps_params R"
  shows "n_components (self_after (fit_transform R self m b s c g)) = n_components self"
    "random_state (self_after (fit_transform R self m b s c g)) = random_state self"
    "pca_n_components (pca_metabolomics (self_after (fit_transform R self m b s c g)))
           = pca_n_components (pca_metabolomics self)"
    "pca_random_state (pca_metabolomics (self_after (fit_transform R self m b s c g)))
           = pca_random_state (pca_metabolomics self)"
    "pca_n_components (pca_bulk_rna (self_after (fit_transform R self m b s c g)))
           = pca_n_components (pca_bulk_rna self)"
    "pca_random_state (pca_bulk_rna (self_after (fit_transform R self m b s c g)))
           = pca_random_state (pca_bulk_rna self)"
    "pca_n_components (pca_spatial (self_after (fit_transform R self m b s c g)))
           = pca_n_components (pca_spatial self)"
    "pca_random_state (pca_spatial (self_after (fit_transform R self m b s c g)))
           = pca_random_state (pca_spatial self)"
    "pca_n_components (pca_sc_rna (self_after (fit_transform R self m b s c g)))
           = pca_n_components (pca_sc_rna self)"
    "pca_random_state (pca_sc_rna (self_after (fit_transform R self m b s c g)))
           = pca_random_state (pca_sc_rna self)"
    "pca_n_components (pca_joint (self_after (fit_transform R self m b s c g)))
           = pca_n_components (pca_joint self)"
    "pca_random_state (pca_joint (self_after (fit_transform R self m b s c g)))
           = pca_random_state (pca_joint self)"
  using assms first_level_pca_keeps_params [OF assms, of self m b s c g]
  unfolding fit_transform_self_after keeps_params_def
  by (simp_all add: first_level_pca_params first_level_pca_joint del: hstack.simps
      split: sum.splits prod.splits)

lemma fit_transform_configured:
  assumes "keeps_params R" and "configured self"
  shows "configured (self_after (fit_transform R self m b s c g))"
  using assms(2) unfolding configured_def
  by (simp add: fit_transform_keeps_params [OF assms(1)])

text \<open>
  C7. Let an integrator be constructed and \<^verbatim>\<open>fit_transform\<close> be called on it, on any
  arrays. A second call on the same integrator, on arrays on which a freshly
  constructed integrator with the same parameters returns, returns the same array and
  leaves the same integrator, with the same five fitted reducers, as the call on the
  fresh integrator does from the same state of the process-wide generator: nothing fitted
  in the first call is read by the second or survives it.
\<close>

theorem fit_transform_second_call:
  assumes "refits R" and "keeps_params R"
    and "result (fit_transform R (post_init k rs) metabolomics bulk_rna spatial_trans sc_rna g)
           = Inr Y"
  shows "fit_transform R
           (self_after (fit_transform R (post_init k rs) metabolomics0 bulk_rna0 spatial_trans0
              sc_rna0 g0))
           metabolomics bulk_rna spatial_trans sc_rna g
         = fit_transform R (post_init k rs) metabolomics bulk_rna spatial_trans sc_rna g"
  using assms(1) fit_transform_keeps_params [OF assms(2)] assms(3)
  by (rule fit_transform_refit)

theorem fit_transform_second_call_witness:
  "fit_transform leading_columns
     (self_after (fit_transform leading_columns (post_init 1 None)
        [[1, 2, 3], [4, 5, 6 :: int]] [[7, 8], [9, 10]] [[0], [0]] [[1], [1]] (0 :: nat)))
     [[1, 2], [3, 4 :: int]] [[5], [6]] [[7], [8]] [[9], [10]] 5
   = fit_transform leading_columns (post_init 1 None)
       [[1, 2], [3, 4 :: int]] [[5], [6]] [[7], [8]] [[9], [10]] 5
   \<and> result (fit_transform leading_columns (post_init 1 None)
       [[1, 2], [3, 4 :: int]] [[5], [6]] [[7], [8]] [[9], [10]] (5 :: nat)) = Inr [[1], [3]]
   \<and> pca_metabolomics (self_after (fit_transform leading_columns (post_init 1 None)
        [[1, 2, 3], [4, 5, 6 :: int]] [[7, 8], [9, 10]] [[0], [0]] [[1], [1]] (0 :: nat)))
     = \<lparr>pca_n_components = 1, pca_random_state = None, fitted = Some (3, 0)\<rparr>
   \<and> pca_metabolomics (self_after (fit_transform leading_columns (post_init 1 None)
       [[1, 2], [3, 4 :: int]] [[5], [6]] [[7], [8]] [[9], [10]] (5 :: nat)))
     = \<lparr>pca_n_components = 1, pca_random_state = None, fitted = Some (2, 5)\<rparr>"
proof -
  have ok: "result (fit_transform leading_columns (post_init 1 None)
       [[1, 2], [3, 4 :: int]] [[5], [6]] [[7], [8]] [[9], [10]] (5 :: nat)) = Inr [[1], [3]]"
    by (simp add: fit_transform_def first_level_pca_def leading_columns_def post_init_def
        PCA_new_def Let_def is_2d_Cons fits_shape_def shape0_def)
  have first: "pca_metabolomics (self_after (fit_transform leading_columns (post_init 1 None)
        [[1, 2, 3], [4, 5, 6 :: int]] [[7, 8], [9, 10]] [[0], [0]] [[1], [1]] (0 :: nat)))
     = \<lparr>pca_n_components = 1, pca_random_state = None, fitted = Some (3, 0)\<rparr>"
    by (simp add: fit_transform_def first_level_pca_def leading_columns_def post_init_def
        PCA_new_def Let_def is_2d_Cons fits_shape_def shape0_def)
  have fresh: "pca_metabolomics (self_after (fit_transform leading_columns (post_init 1 None)
       [[1, 2], [3, 4 :: int]] [[5], [6]] [[7], [8]] [[9], [10]] (5 :: nat)))
     = \<lparr>pca_n_components = 1, pca_random_state = None, fitted = Some (2, 5)\<rparr>"
    by (simp add: fit_transform_def first_level_pca_def leading_columns_def post_init_def
        PCA_new_def Let_def is_2d_Cons fits_shape_def shape0_def)
  from fit_transform_second_call
    [OF leading_columns_refits leading_columns_keeps_params ok,
     of "[[1, 2, 3], [4, 5, 6]]" "[[7, 8], [9, 10]]" "[[0], [0]]" "[[1], [1]]" 0]
  show ?thesis using ok first fresh by simp
qed

section \<open>What a call changes\<close>

lemma keeps_params_estimator:
  assumes "keeps_params R"
  shows "estimator (R p X g) = p\<lparr>fitted := fitted (estimator (R p X g))\<rparr>"
proof -
  have "pca_n_components (estimator (R p X g)) = pca_n_components p"
    "pca_random_state (estimator (R p X g)) = pca_random_state p"
    using assms unfolding keeps_params_def by blast+
  then show ?thesis
    by (cases p, cases "estimator (R p X g)") simp
qed

text \<open>
  C9. A call that returns leaves the integrator as it was but for the fitted state of
  its five reducers: the fields \<^verbatim>\<open>n_components\<close> and \<^verbatim>\<open>random_state\<close> are
  unchanged, each reducer keeps its constructor parameters, and the fitted state of
  each is what its own fit in this call left: the fit of a layer reducer on that
  layer's array, and the fit of the joint reducer on the concatenated latent arrays.
\<close>

theorem fit_transform_frame:
  assumes K: "keeps_params R"
    and ok: "result (fit_transform R self metabolomics bulk_rna spatial_trans sc_rna g) = Inr Y"
  shows "\<exists>l1 l2 l3 l4 concatenated g2 g3 g4 g5.
           result (first_level_pca R self metabolomics bulk_rna spatial_trans sc_rna g)
             = Inr (l1, l2, l3, l4)
         \<and> hstack [l1, l2, l3, l4] = Inr concatenated
         \<and> self_after (fit_transform R self metabolomics bulk_rna spatial_trans sc_rna g) =
             self\<lparr>pca_metabolomics := (pca_metabolomics self)
                    \<lparr>fitted := fitted (estimator (R (pca_metabolomics self) metabolomics g))\<rparr>,
                  pca_bulk_rna := (pca_bulk_rna self)
                    \<lparr>fitted := fitted (estimator (R (pca_bulk_rna self) bulk_rna g2))\<rparr>,
                  pca_spatial := (pca_spatial self)
                    \<lparr>fitted := fitted (estimator (R (pca_spatial self) spatial_trans g3))\<rparr>,
                  pca_sc_rna := (pca_sc_rna self)
                    \<lparr>fitted := fitted (estimator (R (pca_sc_rna self) sc_rna g4))\<rparr>,
                  pca_joint := (pca_joint self)
                    \<lparr>fitted := fitted (estimator (R (pca_joint self) concatenated g5))\<rparr>\<rparr>
         \<and> n_components (self_after
               (fit_transform R self metabolomics bulk_rna spatial_trans sc_rna g))
             = n_components self
         \<and> random_state (self_after
               (fit_transform R self metabolomics bulk_rna spatial_trans sc_rna g))
             = random_state self"
proof -
  let ?v = "first_level_pca R self metabolomics bulk_rna spatial_trans sc_rna g"
  let ?call = "fit_transform R self metabolomics bulk_rna spatial_trans sc_rna g"
  from ok obtain l1 l2 l3 l4 Z where v: "result ?v = Inr (l1, l2, l3, l4)"
    and Z: "hstack [l1, l2, l3, l4] = Inr Z"
    by (rule fit_transform_InrE)
  from v obtain g2 g3 g4 where a: "self_after ?v =
       self\<lparr>pca_metabolomics := estimator (R (pca_metabolomics self) metabolomics g),
            pca_bulk_rna := estimator (R (pca_bulk_rna self) bulk_rna g2),
            pca_spatial := estimator (R (pca_spatial self) spatial_trans g3),
            pca_sc_rna := estimator (R (pca_sc_rna self) sc_rna g4)\<rparr>"
    by (rule first_level_pca_InrE)
  have rows: "shape0 bulk_rna = shape0 metabolomics \<and> shape0 spatial_trans = shape0 metabolomics
      \<and> shape0 sc_rna = shape0 metabolomics"
    using ok unfolding fit_transform_result by (simp split: if_splits)
  have "self_after ?call =
      (self_after ?v)\<lparr>pca_joint := estimator (R (pca_joint self) Z (rng_after ?v))\<rparr>"
    unfolding fit_transform_self_after using rows v Z by (simp del: hstack.simps)
  also have "\<dots> =
      self\<lparr>pca_metabolomics := estimator (R (pca_metabolomics self) metabolomics g),
           pca_bulk_rna := estimator (R (pca_bulk_rna self) bulk_rna g2),
           pca_spatial := estimator (R (pca_spatial self) spatial_trans g3),
           pca_sc_rna := estimator (R (pca_sc_rna self) sc_rna g4),
           pca_joint := estimator (R (pca_joint self) Z (rng_after ?v))\<rparr>"
    unfolding a by simp
  also have "\<dots> =
      self\<lparr>pca_metabolomics := (pca_metabolomics self)
             \<lparr>fitted := fitted (estimator (R (pca_metabolomics self) metabolomics g))\<rparr>,
           pca_bulk_rna := (pca_bulk_rna self)
             \<lparr>fitted := fitted (estimator (R (pca_bulk_rna self) bulk_rna g2))\<rparr>,
           pca_spatial := (pca_spatial self)
             \<lparr>fitted := fitted (estimator (R (pca_spatial self) spatial_trans g3))\<rparr>,
           pca_sc_rna := (pca_sc_rna self)
             \<lparr>fitted := fitted (estimator (R (pca_sc_rna self) sc_rna g4))\<rparr>,
           pca_joint := (pca_joint self)
             \<lparr>fitted := fitted (estimator (R (pca_joint self) Z (rng_after ?v)))\<rparr>\<rparr>"
    using keeps_params_estimator [OF K, of "pca_metabolomics self" metabolomics g]
      keeps_params_estimator [OF K, of "pca_bulk_rna self" bulk_rna g2]
      keeps_params_estimator [OF K, of "pca_spatial self" spatial_trans g3]
      keeps_params_estimator [OF K, of "pca_sc_rna self" sc_rna g4]
      keeps_params_estimator [OF K, of "pca_joint self" Z "rng_after ?v"]
    by simp
  finally have after: "self_after ?call =
      self\<lparr>pca_metabolomics := (pca_metabolomics self)
             \<lparr>fitted := fitted (estimator (R (pca_metabolomics self) metabolomics g))\<rparr>,
           pca_bulk_rna := (pca_bulk_rna self)
             \<lparr>fitted := fitted (estimator (R (pca_bulk_rna self) bulk_rna g2))\<rparr>,
           pca_spatial := (pca_spatial self)
             \<lparr>fitted := fitted (estimator (R (pca_spatial self) spatial_trans g3))\<rparr>,
           pca_sc_rna := (pca_sc_rna self)
             \<lparr>fitted := fitted (estimator (R (pca_sc_rna self) sc_rna g4))\<rparr>,
           pca_joint := (pca_joint self)
             \<lparr>fitted := fitted (estimator (R (pca_joint self) Z (rng_after ?v)))\<rparr>\<rparr>" .
  have "n_components (self_after ?call) = n_components self"
    "random_state (self_after ?call) = random_state self"
    unfolding after by simp_all
  with v Z after show ?thesis by blast
qed

theorem fit_transform_frame_witness:
  "self_after (fit_transform leading_columns (post_init 1 (Some 42))
       [[1, 2], [3, 4 :: int]] [[5], [6]] [[7], [8]] [[9], [10]] (0 :: nat))
   = (post_init 1 (Some 42))
       \<lparr>pca_metabolomics := (PCA_new 1 (Some 42))\<lparr>fitted := Some (2, 42)\<rparr>,
        pca_bulk_rna := (PCA_new 1 (Some 42))\<lparr>fitted := Some (1, 42)\<rparr>,
        pca_spatial := (PCA_new 1 (Some 42))\<lparr>fitted := Some (1, 42)\<rparr>,
        pca_sc_rna := (PCA_new 1 (Some 42))\<lparr>fitted := Some (1, 42)\<rparr>,
        pca_joint := (PCA_new 1 (Some 42))\<lparr>fitted := Some (4, 42)\<rparr>\<rparr>
   \<and> n_components (self_after (fit_transform leading_columns (post_init 1 (Some 42))
       [[1, 2], [3, 4 :: int]] [[5], [6]] [[7], [8]] [[9], [10]] (0 :: nat))) = 1
   \<and> random_state (self_after (fit_transform leading_columns (post_init 1 (Some 42))
       [[1, 2], [3, 4 :: int]] [[5], [6]] [[7], [8]] [[9], [10]] (0 :: nat))) = Some 42"
proof -
  have ok: "result (fit_transform leading_columns (post_init 1 (Some 42))
         [[1, 2], [3, 4 :: int]] [[5], [6]] [[7], [8]] [[9], [10]] (0 :: nat)) = Inr [[1], [3]]"
    by (simp add: fit_transform_def first_level_pca_def leading_columns_def post_init_def
        PCA_new_def Let_def is_2d_Cons fits_shape_def shape0_def)
  have after: "self_after (fit_transform leading_columns (post_init 1 (Some 42))
       [[1, 2], [3, 4 :: int]] [[5], [6]] [[7], [8]] [[9], [10]] (0 :: nat))
   = (post_init 1 (Some 42))
       \<lparr>pca_metabolomics := (PCA_new 1 (Some 42))\<lparr>fitted := Some (2, 42)\<rparr>,
        pca_bulk_rna := (PCA_new 1 (Some 42))\<lparr>fitted := Some (1, 42)\<rparr>,
        pca_spatial := (PCA_new 1 (Some 42))\<lparr>fitted := Some (1, 42)\<rparr>,
        pca_sc_rna := (PCA_new 1 (Some 42))\<lparr>fitted := Some (1, 42)\<rparr>,
        pca_joint := (PCA_new 1 (Some 42))\<lparr>fitted := Some (4, 42)\<rparr>\<rparr>"
    by (simp add: fit_transform_def first_level_pca_def leading_columns_def post_init_def
        PCA_new_def Let_def is_2d_Cons fits_shape_def shape0_def)
  from fit_transform_frame [OF leading_columns_keeps_params ok]
  have "n_components (self_after (fit_transform leading_columns (post_init 1 (Some 42))
       [[1, 2], [3, 4 :: int]] [[5], [6]] [[7], [8]] [[9], [10]] (0 :: nat)))
      = n_components (post_init 1 (Some 42) :: (nat \<times> int) MultiOmicsIntegrator)"
    "random_state (self_after (fit_transform leading_columns (post_init 1 (Some 42))
       [[1, 2], [3, 4 :: int]] [[5], [6]] [[7], [8]] [[9], [10]] (0 :: nat)))
      = random_state (post_init 1 (Some 42) :: (nat \<times> int) MultiOmicsIntegrator)"
    by blast+
  then show ?thesis using after by (simp add: post_init_def)
qed

section \<open>The argument arrays\<close>

lemma first_level_pca_inputs:
  assumes "copies R"
  shows "inputs_after (first_level_pca R self m b s c g) = (m, b, s, c)"
  using assms unfolding copies_def
  by (simp add: first_level_pca_def Let_def split: sum.splits)

text \<open>
  C10. With a reducer that leaves its argument as it is, the four arrays given to
  \<^verbatim>\<open>fit_transform\<close> are the same after the call as before, whether the call
  returns or raises: \<^verbatim>\<open>fit_transform\<close> reads their row counts, hands each to its
  reducer, and builds the concatenated array anew.
\<close>

theorem fit_transform_inputs_unchanged:
  assumes "copies R"
  shows "inputs_after (fit_transform R self metabolomics bulk_rna spatial_trans sc_rna g)
           = (metabolomics, bulk_rna, spatial_trans, sc_rna)"
  using first_level_pca_inputs [OF assms, of self metabolomics bulk_rna spatial_trans sc_rna g]
  by (simp add: fit_transform_def Let_def del: hstack.simps split: sum.splits prod.splits)

theorem fit_transform_inputs_unchanged_witness:
  "copies (leading_columns :: (int, nat \<times> int, nat) reducer)
   \<and> inputs_after (fit_transform leading_columns (post_init 1 None)
        [[1, 2], [3, 4 :: int]] [[5], [6]] [[7], [8]] [[9], [10]] 0)
     = ([[1, 2], [3, 4]], [[5], [6]], [[7], [8]], [[9], [10]])
   \<and> inputs_after (fit_transform leading_columns (post_init 2 None)
        [[1, 2], [3, 4 :: int]] [[5], [6]] [[7], [8]] [[9], [10]] 0)
     = ([[1, 2], [3, 4]], [[5], [6]], [[7], [8]], [[9], [10]])
   \<and> result (fit_transform leading_columns (post_init 2 None)
        [[1, 2], [3, 4 :: int]] [[5], [6]] [[7], [8]] [[9], [10]] 0) = Inl InvalidShape"
proof -
  have "result (fit_transform leading_columns (post_init 2 None)
        [[1, 2], [3, 4 :: int]] [[5], [6]] [[7], [8]] [[9], [10]] 0) = Inl InvalidShape"
    by (simp add: fit_transform_def first_level_pca_def leading_columns_def post_init_def
        PCA_new_def Let_def is_2d_Cons fits_shape_def shape0_def)
  then show ?thesis
    using leading_columns_copies
      fit_transform_inputs_unchanged [OF leading_columns_copies, of "post_init 1 None"
        "[[1, 2], [3, 4 :: int]]" "[[5], [6]]" "[[7], [8]]" "[[9], [10]]" 0]
      fit_transform_inputs_unchanged [OF leading_columns_copies, of "post_init 2 None"
        "[[1, 2], [3, 4 :: int]]" "[[5], [6]]" "[[7], [8]]" "[[9], [10]]" 0]
    by simp
qed

section \<open>The demonstration on synthetic data\<close>

lemma draws_shapeD:
  assumes "draws_shape standard_normal" and "0 < n" and "0 \<le> f"
  shows "\<exists>X rng'. standard_normal rng (n, f) = (Inr X, rng') \<and> is_2d X
           \<and> int (shape0 X) = n \<and> int (shape1 X) = f"
proof -
  from assms obtain X where X: "fst (standard_normal rng (n, f)) = Inr X" "is_2d X"
      "int (shape0 X) = n" "int (shape1 X) = f"
    unfolding draws_shape_def by blast
  then have "standard_normal rng (n, f) = (Inr X, snd (standard_normal rng (n, f)))"
    by (metis prod.collapse)
  with X show ?thesis by blast
qed

lemma seedsD:
  assumes "seeds default_rng" and "valid_seed rs"
  shows "\<exists>rng. default_rng rs = Inr rng"
  using assms unfolding seeds_def by blast

lemma demo_seed_error:
  "default_rng rs = Inl e \<Longrightarrow> demo default_rng standard_normal R n_samples rs g = Inl e"
  by (simp add: demo_def)

text \<open>
  C8. Take a seed that \<^verbatim>\<open>default_rng\<close> accepts (none, or an integer that is not
  negative; for another seed line 149 raises and \<^verbatim>\<open>demo\<close> returns nothing), a
  sampler that returns arrays of the shape asked for and a reducer that meets the
  decomposition contract. Then \<^verbatim>\<open>demo\<close> with at least ten samples draws four
  arrays of \<^verbatim>\<open>n_samples\<close> rows and 50, 1000, 200 and 500 columns, one after the
  other from the generator made from the seed, calls \<^verbatim>\<open>fit_transform\<close> on them on
  a fresh integrator with \<^verbatim>\<open>n_components = 10\<close> and the same seed, and returns the
  joint latent array of that call, of shape (\<^verbatim>\<open>n_samples\<close>, 10), together with the
  integrator. This covers \<^verbatim>\<open>n_samples = 50\<close> with seed 42, where the shape is
  (50, 10).
\<close>

theorem demo_shape:
  assumes G: "seeds default_rng" and V: "valid_seed rs"
    and S: "draws_shape standard_normal" and P: "projects R" and n: "10 \<le> n_samples"
  shows "\<exists>metabolomics bulk_rna spatial_trans sc_rna rng0 rng1 rng2 rng3 rng4
            integrated_latent.
           default_rng rs = Inr rng0
         \<and> standard_normal rng0 (n_samples, 50) = (Inr metabolomics, rng1)
         \<and> standard_normal rng1 (n_samples, 1000) = (Inr bulk_rna, rng2)
         \<and> standard_normal rng2 (n_samples, 200) = (Inr spatial_trans, rng3)
         \<and> standard_normal rng3 (n_samples, 500) = (Inr sc_rna, rng4)
         \<and> int (shape0 metabolomics) = n_samples \<and> shape1 metabolomics = 50
         \<and> int (shape0 bulk_rna) = n_samples \<and> shape1 bulk_rna = 1000
         \<and> int (shape0 spatial_trans) = n_samples \<and> shape1 spatial_trans = 200
         \<and> int (shape0 sc_rna) = n_samples \<and> shape1 sc_rna = 500
         \<and> result (fit_transform R (post_init 10 rs) metabolomics bulk_rna spatial_trans
               sc_rna g) = Inr integrated_latent
         \<and> demo default_rng standard_normal R n_samples rs g =
               Inr (integrated_latent,
                    self_after (fit_transform R (post_init 10 rs) metabolomics bulk_rna
                      spatial_trans sc_rna g))
         \<and> int (shape0 integrated_latent) = n_samples \<and> shape1 integrated_latent = 10"
proof -
  have pos: "0 < n_samples" using n by simp
  from seedsD [OF G V] obtain rng0 where rng0: "default_rng rs = Inr rng0" ..
  from draws_shapeD [OF S pos, of 50 rng0]
  obtain m rng1 where m: "standard_normal rng0 (n_samples, 50) = (Inr m, rng1)"
      "is_2d m" "int (shape0 m) = n_samples" "int (shape1 m) = 50"
    by auto
  from draws_shapeD [OF S pos, of 1000 rng1]
  obtain b rng2 where b: "standard_normal rng1 (n_samples, 1000) = (Inr b, rng2)"
      "is_2d b" "int (shape0 b) = n_samples" "int (shape1 b) = 1000"
    by auto
  from draws_shapeD [OF S pos, of 200 rng2]
  obtain s rng3 where s: "standard_normal rng2 (n_samples, 200) = (Inr s, rng3)"
      "is_2d s" "int (shape0 s) = n_samples" "int (shape1 s) = 200"
    by auto
  from draws_shapeD [OF S pos, of 500 rng3]
  obtain c rng4 where c: "standard_normal rng3 (n_samples, 500) = (Inr c, rng4)"
      "is_2d c" "int (shape0 c) = n_samples" "int (shape1 c) = 500"
    by auto
  let ?self = "post_init 10 rs :: 'c MultiOmicsIntegrator"
  have k: "n_components ?self = 10"
    by (simp add: post_init_def)
  have rows: "shape0 m = nat n_samples" "shape0 b = nat n_samples" "shape0 s = nat n_samples"
    "shape0 c = nat n_samples"
    using m(3) b(3) s(3) c(3) by linarith+
  have "\<exists>Y. result (fit_transform R ?self m b s c g) = Inr Y \<and> is_2d Y
          \<and> shape0 Y = nat n_samples \<and> int (shape1 Y) = n_components ?self"
    using P configured_post_init _ m(2) b(2) s(2) c(2) rows
  proof (rule fit_transform_returns)
    show "0 < n_components ?self" by (simp add: k)
    show "n_components ?self \<le> int (nat n_samples)" using n by (simp add: k)
    show "n_components ?self \<le> int (shape1 m)" by (simp add: k m(4))
    show "n_components ?self \<le> int (shape1 b)" by (simp add: k b(4))
    show "n_components ?self \<le> int (shape1 s)" by (simp add: k s(4))
    show "n_components ?self \<le> int (shape1 c)" by (simp add: k c(4))
  qed
  then obtain Y where Y: "result (fit_transform R ?self m b s c g) = Inr Y"
      "shape0 Y = nat n_samples" "int (shape1 Y) = 10"
    unfolding k by blast
  have "demo default_rng standard_normal R n_samples rs g
      = Inr (Y, self_after (fit_transform R ?self m b s c g))"
    by (simp add: demo_def Let_def rng0 m(1) b(1) s(1) c(1) Y(1))
  moreover have "int (shape0 Y) = n_samples" "shape1 Y = 10"
    using Y(2,3) pos by simp_all
  moreover have "shape1 m = 50" "shape1 b = 1000" "shape1 s = 200" "shape1 c = 500"
    using m(4) b(4) s(4) c(4) by simp_all
  ultimately show ?thesis
    using rng0 m(1,3) b(1,3) s(1,3) c(1,3) Y(1) by blast
qed

theorem demo_shape_witness:
  "valid_seed (Some 42)
   \<and> counting_rng (Some 42) = Inr 42
   \<and> (\<exists>integrated_latent integrator.
        demo counting_rng constant_sampler leading_columns 50 (Some 42) (0 :: nat)
          = Inr (integrated_latent, integrator)
        \<and> shape0 integrated_latent = 50 \<and> shape1 integrated_latent = 10)
   \<and> demo counting_rng constant_sampler leading_columns 50 (Some (- 1)) (0 :: nat)
        = Inl InvalidSeed"
proof -
  have V: "valid_seed (Some 42)"
    by (simp add: valid_seed_def)
  from demo_shape [OF counting_rng_seeds V constant_sampler_draws_shape
      leading_columns_projects, of 50 "0 :: nat"]
  obtain Y I where "demo counting_rng constant_sampler leading_columns 50 (Some 42) (0 :: nat)
       = Inr (Y, I)" "int (shape0 Y) = 50" "shape1 Y = 10"
    by auto
  then have "\<exists>Y I. demo counting_rng constant_sampler leading_columns 50 (Some 42) (0 :: nat)
       = Inr (Y, I) \<and> shape0 Y = 50 \<and> shape1 Y = 10"
    by auto
  moreover have "demo counting_rng constant_sampler leading_columns 50 (Some (- 1)) (0 :: nat)
        = Inl InvalidSeed"
    by (simp add: demo_def counting_rng_def)
  ultimately show ?thesis
    using V by (simp add: counting_rng_def)
qed

end
